theory Spec2Isabelle
  imports Complex_Main "HOL-Library.Sublist"
begin

section \<open>Python values and operators used by the script\<close>

text \<open>
  The script \<^verbatim>\<open>docs/background/plot_bgcube_true_reco.py\<close> computes with Python and
  numpy floating-point numbers. They are modelled by the real numbers: rounding,
  overflow and underflow are not part of the model. A computation that has no finite
  real result is an error value: Python's scalar operators raise there, numpy's
  operators deliver \<^verbatim>\<open>inf\<close> or \<^verbatim>\<open>nan\<close> together with a RuntimeWarning; in
  both cases the model returns the error and no number.
\<close>

datatype py_error =
    ZeroDivisionError
  | ComplexResult
  | IndexError
  | UnitConversionError
  | ValueError string
  | LibraryError string

text \<open>
  The errors that the operators and library calls of the script produce, as opposed to
  the \<open>ValueError\<close> that the script raises itself.
\<close>

definition computed_error :: "py_error \<Rightarrow> bool" where
  "computed_error e = (e = ZeroDivisionError \<or> e = ComplexResult \<or> e = IndexError \<or> e = UnitConversionError)"

text \<open>Sequencing of fallible steps: the first error aborts what follows.\<close>

definition and_then :: "py_error + 'a \<Rightarrow> ('a \<Rightarrow> py_error + 'b) \<Rightarrow> py_error + 'b" where
  "and_then m f = (case m of Inl e \<Rightarrow> Inl e | Inr v \<Rightarrow> f v)"

text \<open>True division \<^verbatim>\<open>x / y\<close>.\<close>

definition py_div :: "real \<Rightarrow> real \<Rightarrow> py_error + real" where
  "py_div x y = (if y = 0 then Inl ZeroDivisionError else Inr (x / y))"

text \<open>
  The power operator \<^verbatim>\<open>x ** y\<close> on floats: a positive base has a real power for
  every exponent; \<^verbatim>\<open>0.0 ** y\<close> is 0 for positive \<open>y\<close>, 1 for \<open>y = 0\<close> and a
  division by zero for negative \<open>y\<close>; a negative base has a real power for an
  integral exponent only (otherwise the result is complex, or \<^verbatim>\<open>nan\<close> in numpy).
\<close>

definition py_pow :: "real \<Rightarrow> real \<Rightarrow> py_error + real" where
  "py_pow x y =
     (if 0 < x then Inr (x powr y)
      else if x = 0 then
        (if 0 < y then Inr 0 else if y = 0 then Inr 1 else Inl ZeroDivisionError)
      else if y \<in> \<int> then Inr (x powi \<lfloor>y\<rfloor>)
      else Inl ComplexResult)"

text \<open>
  Indexing \<^verbatim>\<open>xs[i]\<close> of a list or a one-dimensional array: a negative index counts
  from the end, an index out of range raises IndexError.
\<close>

definition py_getitem :: "'a list \<Rightarrow> int \<Rightarrow> py_error + 'a" where
  "py_getitem xs i =
     (if 0 \<le> i \<and> i < int (length xs) then Inr (xs ! nat i)
      else if i < 0 \<and> - int (length xs) \<le> i then Inr (xs ! nat (int (length xs) + i))
      else Inl IndexError)"

text \<open>A function applied to every element of an array; the first failure is the result.\<close>

fun map_result :: "('a \<Rightarrow> py_error + 'b) \<Rightarrow> 'a list \<Rightarrow> py_error + 'b list" where
  "map_result f [] = Inr []"
| "map_result f (x # xs) =
     and_then (f x) (\<lambda>y. and_then (map_result f xs) (\<lambda>ys. Inr (y # ys)))"

section \<open>The power-law helpers\<close>

text \<open>
  The module constants (lines 19 to 21). \<^verbatim>\<open>E_REF\<close> is \<^verbatim>\<open>Quantity(1., 'TeV')\<close>; the
  model keeps its magnitude in TeV. The parameter \<^verbatim>\<open>norm\<close> of the functions is
  written \<open>norm'\<close>, \<open>norm\<close> being a constant of HOL.
\<close>

definition E_REF :: real where
  "E_REF = 1"

definition NORM :: real where
  "NORM = 1"

definition INDEX :: real where
  "INDEX = 3 / 2"

text \<open>
  Line 25: \<^verbatim>\<open>return norm*(energy/E_0)**-index\<close>. Python evaluates the quotient, then
  the power with exponent \<open>- index\<close>, then the product.
\<close>

definition power_law :: "real \<Rightarrow> real \<Rightarrow> real \<Rightarrow> real \<Rightarrow> py_error + real" where
  "power_law energy E_0 norm' index =
     and_then (py_div energy E_0) (\<lambda>q.
     and_then (py_pow q (- index)) (\<lambda>p.
     Inr (norm' * p)))"

text \<open>
  Line 29:
  \<^verbatim>\<open>return norm/(1 - index)/E_0**-index*(energy_band[1]**(1 - index) - energy_band[0]**(1 - index))\<close>.
  The operands are evaluated from left to right: the quotient by \<open>1 - index\<close>, the
  power of \<open>E_0\<close>, the second quotient, then the two powers of the band's ends.
\<close>

definition int_power_law :: "real list \<Rightarrow> real \<Rightarrow> real \<Rightarrow> real \<Rightarrow> py_error + real" where
  "int_power_law energy_band E_0 norm' index =
     and_then (py_div norm' (1 - index)) (\<lambda>c.
     and_then (py_pow E_0 (- index)) (\<lambda>p.
     and_then (py_div c p) (\<lambda>d.
     and_then (py_getitem energy_band 1) (\<lambda>hi.
     and_then (py_pow hi (1 - index)) (\<lambda>ph.
     and_then (py_getitem energy_band 0) (\<lambda>lo.
     and_then (py_pow lo (1 - index)) (\<lambda>pl.
     Inr (d * (ph - pl)))))))))"

text \<open>
  The specification's reading of both helpers, over the reals: the power law
  \<open>norm * (energy / E_0) ^ (- index)\<close>, the closed form
  \<open>norm / (1 - index) / E_0 ^ (- index) * (band_high ^ (1 - index) - band_low ^ (1 - index))\<close>,
  and the primitive of the power law that the closed form is a difference of.
\<close>

definition spec_power_law :: "real \<Rightarrow> real \<Rightarrow> real \<Rightarrow> real \<Rightarrow> real" where
  "spec_power_law energy E_0 norm' index = norm' * (energy / E_0) powr (- index)"

definition spec_int_power_law :: "real \<Rightarrow> real \<Rightarrow> real \<Rightarrow> real \<Rightarrow> real \<Rightarrow> real" where
  "spec_int_power_law band_low band_high E_0 norm' index =
     norm' / (1 - index) / E_0 powr (- index)
       * (band_high powr (1 - index) - band_low powr (1 - index))"

definition power_law_primitive :: "real \<Rightarrow> real \<Rightarrow> real \<Rightarrow> real \<Rightarrow> real" where
  "power_law_primitive E_0 norm' index energy =
     norm' / (1 - index) / E_0 powr (- index) * energy powr (1 - index)"

text \<open>
  The bases and exponents for which \<^verbatim>\<open>x ** y\<close> is a real number: every positive
  base, the base 0 with a non-negative exponent, a negative base with an integral
  exponent.
\<close>

definition has_real_power :: "real \<Rightarrow> real \<Rightarrow> bool" where
  "has_real_power x y = (0 < x \<or> (x = 0 \<and> 0 \<le> y) \<or> (x < 0 \<and> y \<in> \<int>))"

section \<open>Background cubes and their normalization\<close>

text \<open>
  A unit of \<^verbatim>\<open>astropy.units\<close>: its scale factor with respect to the base units and
  the exponents of the base dimensions (energy, time, solid angle). Products and
  quotients of units multiply the scales and add the exponents.
\<close>

record astropy_unit =
  unit_scale :: real
  unit_bases :: "int \<times> int \<times> int"

definition unit_mul :: "astropy_unit \<Rightarrow> astropy_unit \<Rightarrow> astropy_unit" where
  "unit_mul u v =
     (case (unit_bases u, unit_bases v) of
        ((a, b, c), (a', b', c')) \<Rightarrow>
          \<lparr>unit_scale = unit_scale u * unit_scale v, unit_bases = (a + a', b + b', c + c')\<rparr>)"

definition unit_div :: "astropy_unit \<Rightarrow> astropy_unit \<Rightarrow> astropy_unit" where
  "unit_div u v =
     (case (unit_bases u, unit_bases v) of
        ((a, b, c), (a', b', c')) \<Rightarrow>
          \<lparr>unit_scale = unit_scale u / unit_scale v, unit_bases = (a - a', b - b', c - c')\<rparr>)"

text \<open>A scalar \<^verbatim>\<open>Quantity\<close>: a number and its unit.\<close>

record quantity =
  magnitude :: real
  unit_of :: astropy_unit

text \<open>
  The quotient of two quantities is computed by numpy: a zero divisor gives a
  non-finite number, which the model reports as the division by zero it is.
\<close>

definition quantity_div :: "quantity \<Rightarrow> quantity \<Rightarrow> py_error + quantity" where
  "quantity_div a b =
     and_then (py_div (magnitude a) (magnitude b)) (\<lambda>r.
     Inr \<lparr>magnitude = r, unit_of = unit_div (unit_of a) (unit_of b)\<rparr>)"

text \<open>
  Two quantities are equal when they have the same dimension and the same magnitude
  in base units.
\<close>

definition quantity_eq :: "quantity \<Rightarrow> quantity \<Rightarrow> bool" where
  "quantity_eq a b =
     (unit_bases (unit_of a) = unit_bases (unit_of b)
      \<and> magnitude a * unit_scale (unit_of a) = magnitude b * unit_scale (unit_of b))"

text \<open>
  Modelled from the spec: the background cube class of \<^verbatim>\<open>gammapy.background\<close> is
  not under \<^verbatim>\<open>src/\<close>. The specification describes the cube as a three-dimensional
  array of rate values indexed by energy bin and the two detector coordinates,
  carrying physical units, with a mutable \<^verbatim>\<open>data\<close> attribute and an
  \<^verbatim>\<open>integral\<close> attribute; the integral weights every value by its bin volume, so
  the cube also carries the volume of every bin and the unit of these volumes.
\<close>

record cube =
  data :: "real list list list"
  data_unit :: astropy_unit
  bin_volume :: "real list list list"
  volume_unit :: astropy_unit

definition weighted_sum :: "real list \<Rightarrow> real list \<Rightarrow> real" where
  "weighted_sum vs ws = sum_list (map2 (*) vs ws)"

text \<open>
  Modelled from the spec: the \<^verbatim>\<open>integral\<close> attribute of the cube class is not under
  \<^verbatim>\<open>src/\<close>. The specification defines the cube integral as the total of all rate
  values weighted by bin volume, a scalar; it is a quantity in the product of the
  data's unit and the volumes' unit.
\<close>

definition integral :: "cube \<Rightarrow> quantity" where
  "integral c =
     \<lparr>magnitude = weighted_sum (concat (concat (data c))) (concat (concat (bin_volume c))),
      unit_of = unit_mul (data_unit c) (volume_unit c)\<rparr>"

text \<open>An elementwise operation on a three-dimensional array.\<close>

definition map3 :: "(real \<Rightarrow> real) \<Rightarrow> real list list list \<Rightarrow> real list list list" where
  "map3 f d = map (map (map f)) d"

text \<open>
  Lines 67 to 69:
  \<^verbatim>\<open>integral1 = bg_cube_model1.integral\<close>,
  \<^verbatim>\<open>integral2 = bg_cube_model2.integral\<close>,
  \<^verbatim>\<open>bg_cube_model1.data *= integral2/integral1\<close>.
  The in-place product multiplies every element by the quotient's magnitude and the
  data's unit by the quotient's unit.
\<close>

definition rescale :: "cube \<Rightarrow> cube \<Rightarrow> py_error + cube" where
  "rescale bg_cube_model1 bg_cube_model2 =
     (let integral1 = integral bg_cube_model1;
          integral2 = integral bg_cube_model2
      in and_then (quantity_div integral2 integral1) (\<lambda>ratio.
         Inr (bg_cube_model1
               \<lparr>data := map3 (\<lambda>v. v * magnitude ratio) (data bg_cube_model1),
                data_unit := unit_mul (data_unit bg_cube_model1) (unit_of ratio)\<rparr>)))"

text \<open>
  \<^verbatim>\<open>Quantity.to(unit)\<close> on an array: the values in the new unit, or a
  UnitConversionError when the two units have different dimensions.
\<close>

definition quantity_to ::
  "real list list list \<Rightarrow> astropy_unit \<Rightarrow> astropy_unit \<Rightarrow> py_error + real list list list" where
  "quantity_to d u target =
     (if unit_bases u = unit_bases target
      then Inr (map3 (\<lambda>v. v * (unit_scale u / unit_scale target)) d)
      else Inl UnitConversionError)"

text \<open>
  Lines 67 to 72: the rescaling, then
  \<^verbatim>\<open>bg_cube_model2.data = bg_cube_model2.data.to(bg_cube_model1.data.unit)\<close>.
\<close>

definition normalize :: "cube \<Rightarrow> cube \<Rightarrow> py_error + cube \<times> cube" where
  "normalize bg_cube_model1 bg_cube_model2 =
     and_then (rescale bg_cube_model1 bg_cube_model2) (\<lambda>model1.
     and_then (quantity_to (data bg_cube_model2) (data_unit bg_cube_model2) (data_unit model1))
       (\<lambda>d. Inr (model1, bg_cube_model2\<lparr>data := d, data_unit := data_unit model1\<rparr>)))"

text \<open>Units are well formed when their scale is positive.\<close>

definition valid_cube :: "cube \<Rightarrow> bool" where
  "valid_cube c = (0 < unit_scale (data_unit c) \<and> 0 < unit_scale (volume_unit c))"

section \<open>The figure\<close>

datatype color = Blue | Red

datatype linestyle = Dotted | Dashed

text \<open>
  A legend label: a display name, or \<^verbatim>\<open>'model index = {}'.format(index)\<close>, kept as
  the index that is formatted.
\<close>

datatype label = Name string | ModelIndex real

text \<open>
  A curve of a panel (\<^verbatim>\<open>Line2D\<close>): its sample points and the style arguments of the
  plotting call (an absent argument is matplotlib's default).
\<close>

record line2d =
  xydata :: "(real \<times> real) list"
  line_color :: color
  line_style :: "linestyle option"
  line_width :: "real option"
  line_label :: label

text \<open>
  A panel (\<^verbatim>\<open>Axes\<close>): its title, its curves in the order they were added, the image
  slices drawn on it (the cube and the energy) and whether the legend was drawn.
\<close>

record axes =
  title :: string
  get_lines :: "line2d list"
  images :: "(cube \<times> real) list"
  legend :: bool

record figure =
  size_inches :: "(real \<times> real) option"
  suptitle :: string
  grid :: "axes list list"
  shown :: bool

text \<open>
  What the script takes from \<^verbatim>\<open>gammapy\<close> and cannot be read from \<^verbatim>\<open>src/\<close>, as
  parameters: the reader \<^verbatim>\<open>CubeBackgroundModel.read(filename, format='table').background_cube\<close>
  (the message of the exception it raises, or the cube), the title that
  \<^verbatim>\<open>plot_image\<close> generates for a cube and an energy, the spectrum of a cube at a
  detector coordinate (the generated title, which names the detector bin, and the
  sample points) and \<^verbatim>\<open>datasets.get_path(..., location='remote')\<close>.
\<close>

record spectrum =
  spec_title :: string
  points :: "(real \<times> real) list"

record library =
  read_cube :: "string \<Rightarrow> string + cube"
  image_title :: "cube \<Rightarrow> real \<Rightarrow> string"
  spectrum_at :: "cube \<Rightarrow> real \<times> real \<Rightarrow> spectrum"
  get_path :: "string \<Rightarrow> string"

text \<open>
  Modelled from the spec: \<^verbatim>\<open>plot_image\<close> of the cube class is not under
  \<^verbatim>\<open>src/\<close>. By the specification it renders the image slice of the cube at the
  given energy on the given panel and leaves an auto-generated title on it.
\<close>

definition plot_image :: "library \<Rightarrow> cube \<Rightarrow> real \<Rightarrow> axes \<Rightarrow> axes" where
  "plot_image lib c energy ax =
     ax\<lparr>images := images ax @ [(c, energy)], title := image_title lib c energy\<rparr>"

text \<open>
  Modelled from the spec: \<^verbatim>\<open>plot_spectrum\<close> of the cube class is not under
  \<^verbatim>\<open>src/\<close>. By the specification it plots the cube's spectrum at the given
  coordinate on the given panel, one curve with the colour and label of the style
  arguments, and leaves the auto-generated title, which names the detector bin, on the
  panel.
\<close>

definition plot_spectrum ::
  "library \<Rightarrow> cube \<Rightarrow> real \<times> real \<Rightarrow> axes \<Rightarrow> color \<Rightarrow> string \<Rightarrow> axes" where
  "plot_spectrum lib c coord ax col lab =
     (let s = spectrum_at lib c coord
      in ax\<lparr>get_lines := get_lines ax @
               [\<lparr>xydata = points s, line_color = col, line_style = None,
                 line_width = None, line_label = Name lab\<rparr>],
            title := spec_title s\<rparr>)"

text \<open>\<^verbatim>\<open>Axes.plot(x, y, color=..., linestyle=..., linewidth=..., label=...)\<close> adds a curve.\<close>

definition plot ::
  "axes \<Rightarrow> real list \<Rightarrow> real list \<Rightarrow> color \<Rightarrow> linestyle \<Rightarrow> real \<Rightarrow> label \<Rightarrow> axes" where
  "plot ax xs ys col style width lab =
     ax\<lparr>get_lines := get_lines ax @
          [\<lparr>xydata = zip xs ys, line_color = col, line_style = Some style,
            line_width = Some width, line_label = lab\<rparr>]\<rparr>"

text \<open>
  \<^verbatim>\<open>np.trapz(y=..., x=...)\<close>: the sum of \<open>(x\<^sub>i\<^sub>+\<^sub>1 - x\<^sub>i) * (y\<^sub>i\<^sub>+\<^sub>1 + y\<^sub>i) / 2\<close>.
\<close>

fun trapz :: "real list \<Rightarrow> real list \<Rightarrow> real" where
  "trapz (y0 # y1 # ys) (x0 # x1 # xs) = (x1 - x0) * (y1 + y0) / 2 + trapz (y1 # ys) (x1 # xs)"
| "trapz ys xs = 0"

text \<open>
  Lines 120 to 123 (and 132 to 135, 167 to 170, 179 to 182):
  \<^verbatim>\<open>plot_data_int = np.trapz(y=plot_data_y, x=plot_data_x)\<close>,
  \<^verbatim>\<open>energy_band = np.array([plot_data_x[0], plot_data_x[-1]])\<close>,
  \<^verbatim>\<open>model_int = int_power_law(energy_band, E_0, norm, index)\<close>,
  \<^verbatim>\<open>normed_PL1 = plot_data_int/model_int*power_law(plot_data_x, E_0, norm, index)\<close>.
\<close>

definition normed_PL ::
  "real list \<Rightarrow> real list \<Rightarrow> real \<Rightarrow> real \<Rightarrow> real \<Rightarrow> py_error + real list" where
  "normed_PL plot_data_x plot_data_y E_0 norm' index =
     (let plot_data_int = trapz plot_data_y plot_data_x
      in and_then (py_getitem plot_data_x 0) (\<lambda>x_first.
         and_then (py_getitem plot_data_x (- 1)) (\<lambda>x_last.
         let energy_band = [x_first, x_last]
         in and_then (int_power_law energy_band E_0 norm' index) (\<lambda>model_int.
            and_then (py_div plot_data_int model_int) (\<lambda>factor.
            and_then (map_result (\<lambda>energy. power_law energy E_0 norm' index) plot_data_x)
              (\<lambda>pl. Inr (map (\<lambda>v. factor * v) pl)))))))"

text \<open>
  Lines 118 to 126 (and 130 to 138, 165 to 173, 177 to 185): the sample points are
  read back from \<^verbatim>\<open>axes[i, 2].get_lines()[0].get_xydata()\<close>, column 0 and column 1,
  and the scaled power law is plotted in blue with line width 2.
\<close>

definition overlay :: "axes \<Rightarrow> real \<Rightarrow> real \<Rightarrow> real \<Rightarrow> linestyle \<Rightarrow> py_error + axes" where
  "overlay ax E_0 norm' index style =
     and_then (py_getitem (get_lines ax) 0) (\<lambda>l.
     let plot_data_x = map fst (xydata l)
     in and_then (py_getitem (get_lines ax) 0) (\<lambda>l'.
        let plot_data_y = map snd (xydata l')
        in and_then (normed_PL plot_data_x plot_data_y E_0 norm' index) (\<lambda>normed.
           Inr (plot ax plot_data_x normed Blue style 2 (ModelIndex index)))))"

text \<open>
  The specification's description of the read-back, for comparison with \<open>overlay\<close>:
  the sample points of the most recently plotted curve of the panel
  (\<^verbatim>\<open>get_lines()[-1]\<close>) instead of those of the first one.
\<close>

definition spec_overlay_most_recent ::
  "axes \<Rightarrow> real \<Rightarrow> real \<Rightarrow> real \<Rightarrow> linestyle \<Rightarrow> py_error + axes" where
  "spec_overlay_most_recent ax E_0 norm' index style =
     and_then (py_getitem (get_lines ax) (- 1)) (\<lambda>l.
     let plot_data_x = map fst (xydata l);
         plot_data_y = map snd (xydata l)
     in and_then (normed_PL plot_data_x plot_data_y E_0 norm' index) (\<lambda>normed.
        Inr (plot ax plot_data_x normed Blue style 2 (ModelIndex index))))"

text \<open>
  Lines 106 and 107: the message
  \<^verbatim>\<open>"Expected same det binning, but got " + "\"{0}\" and \"{1}\"".format(spec_title1, spec_title2)\<close>.
\<close>

definition s_error :: "string \<Rightarrow> string \<Rightarrow> string" where
  "s_error spec_title1 spec_title2 =
     ''Expected same det binning, but got '' @
     [CHR 0x22] @ spec_title1 @ [CHR 0x22] @ '' and '' @ [CHR 0x22] @ spec_title2 @ [CHR 0x22]"

text \<open>
  Lines 95 to 140 for the panel \<^verbatim>\<open>axes[0, 2]\<close> at the coordinate (0, 0) degrees, and
  lines 142 to 187 for the panel \<^verbatim>\<open>axes[1, 2]\<close> at (2, 2) degrees: the same statements.
  The result is the exception raised, if any, and the panel as the statements left it.
\<close>

definition spectral_panel ::
  "library \<Rightarrow> cube \<Rightarrow> cube \<Rightarrow> string \<Rightarrow> string \<Rightarrow> real \<times> real \<Rightarrow> axes
     \<Rightarrow> py_error option \<times> axes" where
  "spectral_panel lib bg_cube_model1 bg_cube_model2 name1 name2 coord ax =
     (let ax1 = plot_spectrum lib bg_cube_model1 coord ax Blue name1;
          spec_title1 = title ax1;
          ax2 = plot_spectrum lib bg_cube_model2 coord ax1 Red name2;
          spec_title2 = title ax2
      in if spec_title1 \<noteq> spec_title2
         then (Some (ValueError (s_error spec_title1 spec_title2)), ax2)
         else
           (let ax3 = ax2\<lparr>title := spec_title1\<rparr>
            in case overlay ax3 E_REF NORM INDEX Dotted of
                 Inl e \<Rightarrow> (Some e, ax3)
               | Inr ax4 \<Rightarrow>
                   (case overlay ax4 E_REF NORM (INDEX + 1) Dashed of
                      Inl e \<Rightarrow> (Some e, ax4)
                    | Inr ax5 \<Rightarrow> (None, ax5\<lparr>legend := True\<rparr>))))"

section \<open>The script's function\<close>

text \<open>\<^verbatim>\<open>plt.subplots(nrows=..., ncols=...)\<close>: a figure and its grid of empty panels.\<close>

definition empty_axes :: axes where
  "empty_axes = \<lparr>title = [], get_lines = [], images = [], legend = False\<rparr>"

definition subplots :: "nat \<Rightarrow> nat \<Rightarrow> figure" where
  "subplots nrows ncols =
     \<lparr>size_inches = None, suptitle = [],
      grid = replicate nrows (replicate ncols empty_axes), shown = False\<rparr>"

text \<open>
  The panel \<^verbatim>\<open>axes[i, j]\<close>. Python mutates the panel object in place; the model puts
  the changed panel back into the grid.
\<close>

definition axes_at :: "figure \<Rightarrow> nat \<Rightarrow> nat \<Rightarrow> axes" where
  "axes_at f i j = grid f ! i ! j"

definition set_axes :: "figure \<Rightarrow> nat \<Rightarrow> nat \<Rightarrow> axes \<Rightarrow> figure" where
  "set_axes f i j ax = f\<lparr>grid := (grid f)[i := (grid f ! i)[j := ax]]\<rparr>"

text \<open>Line 77.\<close>

definition group_info :: string where
  "group_info = ''group 27: ALT = [72.0, 90.0) deg, AZ = [90.0, 270.0) deg''"

text \<open>
  Lines 83 and 84 (and 85 to 90): \<^verbatim>\<open>plot_image\<close>, then the title
  \<^verbatim>\<open>"{0}: {1}".format(name, ax.get_title())\<close>.
\<close>

definition image_panel :: "library \<Rightarrow> cube \<Rightarrow> real \<Rightarrow> string \<Rightarrow> axes \<Rightarrow> axes" where
  "image_panel lib c energy name ax =
     (let ax1 = plot_image lib c energy ax
      in ax1\<lparr>title := name @ '': '' @ title ax1\<rparr>)"

text \<open>
  Which error values are exceptions. In line 69 and in lines 118 to 138 the quotients,
  products and powers have a numpy array or an astropy quantity among their operands
  (the quotient \<^verbatim>\<open>norm/(1 - index)\<close> of two Python numbers has the divisor -1/2 or
  -3/2): where the model has the error value \<open>ZeroDivisionError\<close> or
  \<open>ComplexResult\<close> for them, numpy computes \<^verbatim>\<open>inf\<close> or \<^verbatim>\<open>nan\<close> with a
  RuntimeWarning, no exception is raised and the statements that follow are executed.
  Every other error value is an exception and ends the run.
\<close>

definition is_exception :: "py_error \<Rightarrow> bool" where
  "is_exception e = (e \<noteq> ZeroDivisionError \<and> e \<noteq> ComplexResult)"

definition exception_of :: "py_error option \<Rightarrow> py_error option" where
  "exception_of outcome =
     (case outcome of
        None \<Rightarrow> None
      | Some e \<Rightarrow> if is_exception e then Some e else None)"

text \<open>
  Lines 67 to 69 as a run executes them: the first cube after the product, and
  whether its values are finite numbers. Where the quotient of the integrals is not a
  finite number, every value of the cube becomes \<^verbatim>\<open>inf\<close> or \<^verbatim>\<open>nan\<close>; the cube
  keeps its binning and has the unit of the product, and the values of the record
  (those before the product) stand for no number.
\<close>

definition after_rescale :: "cube \<Rightarrow> cube \<Rightarrow> bool \<times> cube" where
  "after_rescale bg_cube_model1 bg_cube_model2 =
     (case rescale bg_cube_model1 bg_cube_model2 of
        Inr model1 \<Rightarrow> (True, model1)
      | Inl e \<Rightarrow>
          (False,
           bg_cube_model1
             \<lparr>data_unit := unit_mul (data_unit bg_cube_model1)
                (unit_div (unit_of (integral bg_cube_model2))
                          (unit_of (integral bg_cube_model1)))\<rparr>))"

text \<open>
  Lines 67 to 72 as a run executes them: the conversion of line 72 raises a
  UnitConversionError or gives the second cube in the first cube's unit.
\<close>

definition normalization_step :: "cube \<Rightarrow> cube \<Rightarrow> py_error + bool \<times> cube \<times> cube" where
  "normalization_step bg_cube_model1 bg_cube_model2 =
     (let (is_finite, model1) = after_rescale bg_cube_model1 bg_cube_model2
      in and_then
           (quantity_to (data bg_cube_model2) (data_unit bg_cube_model2) (data_unit model1))
           (\<lambda>d. Inr (is_finite, model1, bg_cube_model2\<lparr>data := d, data_unit := data_unit model1\<rparr>)))"

text \<open>
  The figure of a run: not yet created, a figure all of whose values are finite
  numbers, or a figure that holds \<^verbatim>\<open>inf\<close> or \<^verbatim>\<open>nan\<close>, of which the model keeps
  only whether it was shown.
\<close>

datatype figure_state = NoFigure | Finite figure | NonFinite bool

definition figure_of :: "bool \<Rightarrow> figure \<Rightarrow> figure_state" where
  "figure_of is_finite f = (if is_finite then Finite f else NonFinite (shown f))"

text \<open>
  A run of the function: the exception that ended it, if any, the arguments of its
  two \<^verbatim>\<open>print\<close> calls, and the figure as far as it was built.
\<close>

record run =
  raised :: "py_error option"
  printed :: "(string \<times> string) list"
  fig :: figure_state

text \<open>
  Lines 32 to 189. An exception of the reader is kept as a \<open>LibraryError\<close>; the
  plotting calls of the libraries are taken to succeed. A spectral panel ends the run
  when its outcome is an exception; an outcome that is a non-finite number leaves
  curves of \<^verbatim>\<open>inf\<close> or \<^verbatim>\<open>nan\<close> on the panel and the run goes on. The exceptions
  of a panel are decided by the titles and by the sample energies of its first curve,
  which are the same whether the first cube's values are finite or not.
\<close>

definition plot_bg_cube_model_comparison ::
  "library \<Rightarrow> string \<Rightarrow> string \<Rightarrow> string \<Rightarrow> string \<Rightarrow> run" where
  "plot_bg_cube_model_comparison lib input_file1 name1 input_file2 name2 =
     (let filename1 = input_file1;
          filename2 = input_file2;
          out = [(''filename1'', filename1), (''filename2'', filename2)]
      in case read_cube lib filename1 of
           Inl m \<Rightarrow> \<lparr>raised = Some (LibraryError m), printed = out, fig = NoFigure\<rparr>
         | Inr bg_cube_model1 \<Rightarrow>
        (case read_cube lib filename2 of
           Inl m \<Rightarrow> \<lparr>raised = Some (LibraryError m), printed = out, fig = NoFigure\<rparr>
         | Inr bg_cube_model2 \<Rightarrow>
        (case normalization_step bg_cube_model1 bg_cube_model2 of
           Inl e \<Rightarrow> \<lparr>raised = Some e, printed = out, fig = NoFigure\<rparr>
         | Inr (is_finite, model1, model2) \<Rightarrow>
          (let fig0 = (subplots 2 3)\<lparr>size_inches := Some (30, 15), suptitle := group_info\<rparr>;
               fig1 = set_axes fig0 0 0 (image_panel lib model1 1 name1 (axes_at fig0 0 0));
               fig2 = set_axes fig1 1 0 (image_panel lib model1 10 name1 (axes_at fig1 1 0));
               fig3 = set_axes fig2 0 1 (image_panel lib model2 1 name2 (axes_at fig2 0 1));
               fig4 = set_axes fig3 1 1 (image_panel lib model2 10 name2 (axes_at fig3 1 1));
               (e1, ax02) =
                 spectral_panel lib model1 model2 name1 name2 (0, 0) (axes_at fig4 0 2);
               fig5 = set_axes fig4 0 2 ax02
           in case exception_of e1 of
                Some e \<Rightarrow> \<lparr>raised = Some e, printed = out, fig = figure_of is_finite fig5\<rparr>
              | None \<Rightarrow>
                 (let (e2, ax12) =
                        spectral_panel lib model1 model2 name1 name2 (2, 2) (axes_at fig5 1 2);
                      fig6 = set_axes fig5 1 2 ax12
                  in case exception_of e2 of
                       Some e \<Rightarrow>
                         \<lparr>raised = Some e, printed = out,
                          fig = figure_of (is_finite \<and> e1 = None) fig6\<rparr>
                     | None \<Rightarrow>
                         \<lparr>raised = None, printed = out,
                          fig = figure_of (is_finite \<and> e1 = None \<and> e2 = None)
                                  (fig6\<lparr>shown := True\<rparr>)\<rparr>)))))"

text \<open>Lines 192 to 204: the entry point.\<close>

definition main :: "library \<Rightarrow> run" where
  "main lib =
     (let input_file1 = get_path lib ''../test_datasets/background/bg_cube_model_true.fits.gz'';
          name1 = ''true'';
          input_file2 = get_path lib ''../test_datasets/background/bg_cube_model_reco.fits.gz'';
          name2 = ''reco''
      in plot_bg_cube_model_comparison lib input_file1 name1 input_file2 name2)"

section \<open>Example inputs\<close>

text \<open>
  Units and small cubes that the theorems below are instantiated with: a rate unit
  per TeV and one per GeV, the unit of a bin volume, and cubes of one energy bin.
\<close>

definition rate_unit :: astropy_unit where
  "rate_unit = \<lparr>unit_scale = 1, unit_bases = (- 1, - 1, - 1)\<rparr>"

definition rate_unit_GeV :: astropy_unit where
  "rate_unit_GeV = \<lparr>unit_scale = 1000, unit_bases = (- 1, - 1, - 1)\<rparr>"

definition bin_unit :: astropy_unit where
  "bin_unit = \<lparr>unit_scale = 1, unit_bases = (1, 0, 1)\<rparr>"

definition example_cube1 :: cube where
  "example_cube1 = \<lparr>data = [[[1, 3]]], data_unit = rate_unit,
     bin_volume = [[[2, 1]]], volume_unit = bin_unit\<rparr>"

definition example_cube2 :: cube where
  "example_cube2 = \<lparr>data = [[[4, 2]]], data_unit = rate_unit_GeV,
     bin_volume = [[[2, 1]]], volume_unit = bin_unit\<rparr>"

definition zero_cube :: cube where
  "zero_cube = \<lparr>data = [[[0, 0]]], data_unit = rate_unit,
     bin_volume = [[[2, 1]]], volume_unit = bin_unit\<rparr>"

definition ones_cube :: cube where
  "ones_cube = \<lparr>data = [[[1, 1, 1, 1, 1], [1, 1, 1, 1, 1]]], data_unit = rate_unit,
     bin_volume = [[[1, 1, 1, 1, 1], [1, 1, 1, 1, 1]]], volume_unit = bin_unit\<rparr>"

definition target_cube :: cube where
  "target_cube = \<lparr>data = [[[1, 2, 3, 4, 5], [1, 2, 3, 4, 0]]], data_unit = rate_unit,
     bin_volume = [[[1, 1, 1, 1, 1], [1, 1, 1, 1, 1]]], volume_unit = bin_unit\<rparr>"

text \<open>
  Cubes of three energy bins with constant rates, a cube of another binning, and a
  library whose spectra sample the energies 1, 4 and 16 TeV and whose titles name the
  binning.
\<close>

definition flat_cube1 :: cube where
  "flat_cube1 = \<lparr>data = [[[1, 1, 1]]], data_unit = rate_unit,
     bin_volume = [[[1, 1, 1]]], volume_unit = bin_unit\<rparr>"

definition flat_cube2 :: cube where
  "flat_cube2 = \<lparr>data = [[[2, 2, 2]]], data_unit = rate_unit,
     bin_volume = [[[1, 1, 1]]], volume_unit = bin_unit\<rparr>"

definition two_bin_cube :: cube where
  "two_bin_cube = \<lparr>data = [[[1, 1, 1]], [[1, 1, 1]]], data_unit = rate_unit,
     bin_volume = [[[1, 1, 1]], [[1, 1, 1]]], volume_unit = bin_unit\<rparr>"

definition example_library :: library where
  "example_library =
     \<lparr>read_cube = (\<lambda>filename.
        if filename = ''true.fits.gz'' then Inr flat_cube1
        else if filename = ''reco.fits.gz'' then Inr flat_cube2
        else if filename = ''coarse.fits.gz'' then Inr two_bin_cube
        else Inl ''file not found''),
      image_title = (\<lambda>c energy. ''Energy bin''),
      spectrum_at = (\<lambda>c coord.
        \<lparr>spec_title = (if length (data c) = 1 then ''det bin: 3x3'' else ''det bin: 5x5''),
         points = zip [1, 4, 16] (concat (concat (data c)))\<rparr>),
      get_path = (\<lambda>path. path)\<rparr>"

text \<open>
  A cube of integral 0, a library that reads it from a further file, and a library
  whose titles name the same binning for every cube on the axis, at the coordinate
  (0, 0), and the cube's own binning elsewhere.
\<close>

definition flat_zero_cube :: cube where
  "flat_zero_cube = \<lparr>data = [[[0, 0, 0]]], data_unit = rate_unit,
     bin_volume = [[[1, 1, 1]]], volume_unit = bin_unit\<rparr>"

definition zero_library :: library where
  "zero_library =
     example_library
       \<lparr>read_cube := (\<lambda>filename.
          if filename = ''zero.fits.gz'' then Inr flat_zero_cube
          else read_cube example_library filename)\<rparr>"

definition offaxis_library :: library where
  "offaxis_library =
     example_library
       \<lparr>spectrum_at := (\<lambda>c coord.
          \<lparr>spec_title =
             (if coord = (0, 0) \<or> length (data c) = 1 then ''det bin: 3x3''
              else ''det bin: 5x5''),
           points = zip [1, 4, 16] (concat (concat (data c)))\<rparr>)\<rparr>"

text \<open>A cube whose bin volumes are solid angles, not products of an energy and a solid angle.\<close>

definition solid_angle_cube :: cube where
  "solid_angle_cube = \<lparr>data = [[[4, 2]]], data_unit = rate_unit,
     bin_volume = [[[2, 1]]], volume_unit = \<lparr>unit_scale = 1, unit_bases = (0, 0, 1)\<rparr>\<rparr>"

text \<open>The panel after both spectra of the flat cubes were plotted on an empty panel.\<close>

definition example_panel :: axes where
  "example_panel =
     plot_spectrum example_library flat_cube2 (0, 0)
       (plot_spectrum example_library flat_cube1 (0, 0) empty_axes Blue ''true'') Red ''reco''"

section \<open>Properties of the power-law helpers\<close>

lemma and_then_Inr [simp]: "and_then (Inr v) f = f v"
  by (simp add: and_then_def)

lemma and_then_Inl [simp]: "and_then (Inl e) f = Inl e"
  by (simp add: and_then_def)

lemma py_pow_pos [simp]: "0 < x \<Longrightarrow> py_pow x y = Inr (x powr y)"
  by (simp add: py_pow_def)

lemma py_div_nonzero [simp]: "y \<noteq> 0 \<Longrightarrow> py_div x y = Inr (x / y)"
  by (simp add: py_div_def)

lemma py_div_zero [simp]: "py_div x 0 = Inl ZeroDivisionError"
  by (simp add: py_div_def)

lemma py_getitem_pair [simp]:
  "py_getitem [a, b] 0 = Inr a" "py_getitem [a, b] 1 = Inr b"
  by (simp_all add: py_getitem_def)

lemma py_getitem_first: "xs \<noteq> [] \<Longrightarrow> py_getitem xs 0 = Inr (hd xs)"
  by (cases xs) (simp_all add: py_getitem_def)

lemma py_getitem_last: "xs \<noteq> [] \<Longrightarrow> py_getitem xs (- 1) = Inr (last xs)"
  by (cases xs) (simp_all add: py_getitem_def last_conv_nth nat_diff_distrib')

lemma py_getitem_empty: "py_getitem [] i = Inl IndexError"
  by (simp add: py_getitem_def)

lemma py_pow_returns: "has_real_power x y \<Longrightarrow> \<exists>p. py_pow x y = Inr p"
  by (auto simp: has_real_power_def py_pow_def)

lemma py_pow_fails: "\<not> has_real_power x y \<Longrightarrow> \<exists>e. py_pow x y = Inl e"
  by (auto simp: has_real_power_def py_pow_def)

text \<open>
  On positive energies the primitive has the power law as its derivative: the closed
  form is the integral of the power law by the fundamental theorem of calculus.
\<close>

lemma power_law_primitive_deriv:
  assumes "0 < E_0" and "index \<noteq> 1" and "0 < e"
  shows "(power_law_primitive E_0 n index has_real_derivative spec_power_law e E_0 n index) (at e)"
proof -
  let ?c = "n / (1 - index) / E_0 powr (- index)"
  have d: "((\<lambda>z. z powr (1 - index)) has_real_derivative (1 - index) * e powr (1 - index - 1)) (at e)"
    using assms(3) by (rule has_real_derivative_powr)
  have "((\<lambda>z. ?c * z powr (1 - index)) has_real_derivative
          ?c * ((1 - index) * e powr (1 - index - 1))) (at e)"
    by (rule DERIV_cmult [OF d])
  moreover have "?c * ((1 - index) * e powr (1 - index - 1)) = spec_power_law e E_0 n index"
    using assms by (simp add: spec_power_law_def powr_divide powr_minus field_simps)
  moreover have "power_law_primitive E_0 n index = (\<lambda>z. ?c * z powr (1 - index))"
    by (rule ext) (simp add: power_law_primitive_def)
  ultimately show ?thesis by simp
qed

text \<open>
  The specification's example: with \<open>index = 0\<close> the integral is that of a constant,
  \<open>norm * (b - a) / E_0 ^ 0\<close>.
\<close>

lemma int_power_law_flat:
  assumes "0 < E_0" and "0 < a" and "0 < b"
  shows "int_power_law [a, b] E_0 n 0 = Inr (n * (b - a) / E_0 powr 0)"
  using assms by (simp add: int_power_law_def)

text \<open>
  C4: \<open>power_law\<close> is a function of its four arguments alone (it reads and changes
  no state: in the model it is a function of HOL). For every positive energy it
  returns \<open>norm * (energy / E_0) ^ (- index)\<close>: for every reference energy other than
  0 with Python's power of the quotient, and for a positive reference energy, where
  the quotient is positive, with the real power. At the reference energy itself it
  returns \<open>norm\<close>, whatever the index.
\<close>

theorem power_law_value:
  assumes "0 < energy"
  shows "(E_0 \<noteq> 0 \<longrightarrow>
            power_law energy E_0 norm' index =
              and_then (py_pow (energy / E_0) (- index)) (\<lambda>p. Inr (norm' * p)))
       \<and> (0 < E_0 \<longrightarrow>
            power_law energy E_0 norm' index = Inr (spec_power_law energy E_0 norm' index))
       \<and> power_law energy energy norm' index = Inr norm'"
  using assms by (simp add: power_law_def spec_power_law_def)

theorem power_law_value_witness:
  "power_law 4 1 3 (1 / 2) = Inr (3 / 2) \<and> power_law 4 4 3 (1 / 2) = Inr 3"
  using power_law_value [of 4 1 3 "1 / 2"]
  by (simp add: spec_power_law_def powr_minus powr_half_sqrt real_sqrt_divide)

text \<open>
  C3: for a reference energy \<open>E_0 > 0\<close> and \<open>index \<noteq> 1\<close>, \<open>int_power_law\<close>
  on the band \<open>[band_low, band_high]\<close> is
  \<open>norm / (1 - index) / E_0 ^ (- index) * (band_high ^ (1 - index) - band_low ^ (1 - index))\<close>.
  This holds for every band, the two powers being Python's (the function fails where
  one of them does). For a band of positive energies the powers are real powers, and
  the value is the integral of the power law over the band: the difference, between
  the band's ends, of a function whose derivative at every positive energy is the
  power law.
\<close>

theorem int_power_law_closed_form:
  assumes "0 < E_0" and "index \<noteq> 1"
  shows "int_power_law [band_low, band_high] E_0 norm' index =
           and_then (py_pow band_high (1 - index)) (\<lambda>ph.
           and_then (py_pow band_low (1 - index)) (\<lambda>pl.
           Inr (norm' / (1 - index) / E_0 powr (- index) * (ph - pl))))
       \<and> (0 < band_low \<and> 0 < band_high \<longrightarrow>
            int_power_law [band_low, band_high] E_0 norm' index =
              Inr (spec_int_power_law band_low band_high E_0 norm' index)
          \<and> spec_int_power_law band_low band_high E_0 norm' index =
              power_law_primitive E_0 norm' index band_high
                - power_law_primitive E_0 norm' index band_low
          \<and> (\<forall>e. 0 < e \<longrightarrow>
               (power_law_primitive E_0 norm' index has_real_derivative
                  spec_power_law e E_0 norm' index) (at e)))"
proof -
  have every_band: "int_power_law [band_low, band_high] E_0 norm' index =
           and_then (py_pow band_high (1 - index)) (\<lambda>ph.
           and_then (py_pow band_low (1 - index)) (\<lambda>pl.
           Inr (norm' / (1 - index) / E_0 powr (- index) * (ph - pl))))"
    using assms by (simp add: int_power_law_def)
  have difference: "spec_int_power_law band_low band_high E_0 norm' index =
              power_law_primitive E_0 norm' index band_high
                - power_law_primitive E_0 norm' index band_low"
    by (simp add: spec_int_power_law_def power_law_primitive_def right_diff_distrib)
  have positive: "int_power_law [band_low, band_high] E_0 norm' index =
              Inr (spec_int_power_law band_low band_high E_0 norm' index)"
    if "0 < band_low" "0 < band_high"
    using that every_band by (simp add: spec_int_power_law_def)
  show ?thesis
    using every_band difference positive power_law_primitive_deriv [OF assms]
    by blast
qed

theorem int_power_law_closed_form_witness:
  "int_power_law [1, 4] 1 3 2 = Inr (9 / 4)
   \<and> power_law_primitive 1 3 2 4 - power_law_primitive 1 3 2 1 = 9 / 4
   \<and> (power_law_primitive 1 3 2 has_real_derivative spec_power_law 2 1 3 2) (at 2)"
  using int_power_law_closed_form [of 1 2 1 4 3]
  by (simp add: spec_int_power_law_def powr_minus)

lemma py_pow_nonzero_base:
  assumes "x \<noteq> 0"
  shows "py_pow x y = Inl ComplexResult \<or> (\<exists>p. p \<noteq> 0 \<and> py_pow x y = Inr p)"
  using assms by (auto simp: py_pow_def power_int_eq_0_iff)

lemma int_power_law_nonzero_energies:
  assumes "E_0 \<noteq> 0" and "band_low \<noteq> 0" and "band_high \<noteq> 0"
  shows "(int_power_law [band_low, band_high] E_0 n index = Inl ZeroDivisionError) = (index = 1)"
proof (cases "index = 1")
  case True
  then show ?thesis by (simp add: int_power_law_def)
next
  case False
  have "int_power_law [band_low, band_high] E_0 n index \<noteq> Inl ZeroDivisionError"
    using py_pow_nonzero_base [OF assms(1), of "- index"]
      py_pow_nonzero_base [OF assms(2), of "1 - index"]
      py_pow_nonzero_base [OF assms(3), of "1 - index"] False
    by (auto simp: int_power_law_def)
  with False show ?thesis by simp
qed

text \<open>
  C5, as the code has it: with \<open>index = 1\<close> the function fails with a division by
  zero whatever its other arguments are, and so does the computation of the overlay
  that calls it (no check stands before the call). When the reference energy and both
  ends of the band are not 0, this is the only division by zero: the function fails
  with one exactly when \<open>index = 1\<close>. For positive energies and \<open>index \<noteq> 1\<close> it
  returns a number.
\<close>

theorem int_power_law_division_by_zero:
  "int_power_law energy_band E_0 norm' 1 = Inl ZeroDivisionError
   \<and> (plot_data_x \<noteq> [] \<longrightarrow>
        normed_PL plot_data_x plot_data_y E_0 norm' 1 = Inl ZeroDivisionError)
   \<and> (E_0 \<noteq> 0 \<and> band_low \<noteq> 0 \<and> band_high \<noteq> 0 \<longrightarrow>
        (int_power_law [band_low, band_high] E_0 norm' index = Inl ZeroDivisionError)
          = (index = 1))
   \<and> (0 < E_0 \<and> 0 < band_low \<and> 0 < band_high \<and> index \<noteq> 1 \<longrightarrow>
        (\<exists>v. int_power_law [band_low, band_high] E_0 norm' index = Inr v))"
proof -
  have a: "int_power_law band E_0 norm' 1 = Inl ZeroDivisionError" for band
    by (simp add: int_power_law_def)
  have b: "normed_PL plot_data_x plot_data_y E_0 norm' 1 = Inl ZeroDivisionError"
    if "plot_data_x \<noteq> []"
    using that by (simp add: normed_PL_def a py_getitem_first py_getitem_last)
  have d: "\<exists>v. int_power_law [band_low, band_high] E_0 norm' index = Inr v"
    if "0 < E_0" "0 < band_low" "0 < band_high" "index \<noteq> 1"
    using that by (simp add: int_power_law_def)
  show ?thesis using a b d int_power_law_nonzero_energies by blast
qed

theorem int_power_law_division_by_zero_witness:
  "int_power_law [1, 4] 1 1 1 = Inl ZeroDivisionError
   \<and> normed_PL [1, 4] [1, 1] 1 1 1 = Inl ZeroDivisionError
   \<and> int_power_law [1, 4] 1 1 2 \<noteq> Inl ZeroDivisionError
   \<and> (\<exists>v. int_power_law [1, 4] 1 1 2 = Inr v)"
  using int_power_law_division_by_zero [of "[1, 4]" 1 1 "[1, 4]" "[1, 1]" 1 4 2]
  by simp

text \<open>
  The claim C5 as stated fails: on the band \<open>[0, 1]\<close> with \<open>E_0 = 1\<close>,
  \<open>norm = 1\<close> and \<open>index = 2\<close> the function fails with a division by zero
  (\<^verbatim>\<open>0.0 ** -1\<close>) although the index is not 1.
\<close>

theorem int_power_law_zero_end_counterexample:
  "int_power_law [0, 1] 1 1 2 = Inl ZeroDivisionError \<and> (2::real) \<noteq> 1"
  by (simp add: int_power_law_def py_pow_def)

text \<open>
  C10, as the code has it: for \<open>E_0 > 0\<close>, \<open>index \<noteq> 1\<close> and band ends whose
  power with the exponent \<open>1 - index\<close> is a real number (every positive energy is
  one), the function returns 0 on the band \<open>[a, a]\<close>, and on \<open>[b, a]\<close> the
  negated value of \<open>[a, b]\<close>.
\<close>

theorem int_power_law_band_symmetry:
  assumes "0 < E_0" and "index \<noteq> 1"
    and "has_real_power a (1 - index)" and "has_real_power b (1 - index)"
  shows "int_power_law [a, a] E_0 norm' index = Inr 0
       \<and> (\<exists>v. int_power_law [a, b] E_0 norm' index = Inr v
              \<and> int_power_law [b, a] E_0 norm' index = Inr (- v))"
proof -
  obtain pa where pa: "py_pow a (1 - index) = Inr pa"
    using py_pow_returns [OF assms(3)] by blast
  obtain pb where pb: "py_pow b (1 - index) = Inr pb"
    using py_pow_returns [OF assms(4)] by blast
  let ?c = "norm' / (1 - index) / E_0 powr (- index)"
  have "int_power_law [a, a] E_0 norm' index = Inr 0"
    using assms(1,2) pa by (simp add: int_power_law_def)
  moreover have "int_power_law [a, b] E_0 norm' index = Inr (?c * (pb - pa))"
    using assms(1,2) pa pb by (simp add: int_power_law_def)
  moreover have "int_power_law [b, a] E_0 norm' index = Inr (- (?c * (pb - pa)))"
    using assms(1,2) pa pb by (simp add: int_power_law_def right_diff_distrib)
  ultimately show ?thesis by blast
qed

theorem int_power_law_band_symmetry_witness:
  "int_power_law [4, 4] 1 3 2 = Inr 0
   \<and> (\<exists>v. int_power_law [1, 4] 1 3 2 = Inr v \<and> int_power_law [4, 1] 1 3 2 = Inr (- v))"
  using int_power_law_band_symmetry [of 1 2 4 1 3] int_power_law_band_symmetry [of 1 2 1 4 3]
  by (simp add: has_real_power_def)

text \<open>
  The claim C10 as stated fails: on the degenerate band \<open>[0, 0]\<close> with
  \<open>E_0 = 1\<close>, \<open>norm = 1\<close> and \<open>index = 2\<close> the function does not return 0, it
  fails with a division by zero (\<^verbatim>\<open>0.0 ** -1\<close>).
\<close>

theorem int_power_law_degenerate_counterexample:
  "int_power_law [0, 0] 1 1 2 = Inl ZeroDivisionError \<and> int_power_law [0, 0] 1 1 2 \<noteq> Inr 0"
  by (simp add: int_power_law_def py_pow_def)

section \<open>Properties of the normalization\<close>

lemma weighted_sum_scale: "weighted_sum (map (\<lambda>v. v * k) vs) ws = weighted_sum vs ws * k"
proof (induction vs arbitrary: ws)
  case Nil
  show ?case by (simp add: weighted_sum_def)
next
  case (Cons v vs)
  show ?case
  proof (cases ws)
    case Nil
    then show ?thesis by (simp add: weighted_sum_def)
  next
    case (Cons w ws')
    with Cons.IH [of ws'] show ?thesis
      by (simp add: weighted_sum_def algebra_simps)
  qed
qed

lemma flatten_map3: "concat (concat (map3 f d)) = map f (concat (concat d))"
  by (simp add: map3_def map_concat comp_def)

lemma shape_map3: "map (map length) (map3 f d) = map (map length) d"
  by (simp add: map3_def comp_def)

lemma integral_scaled:
  "magnitude (integral (c\<lparr>data := map3 (\<lambda>v. v * k) (data c), data_unit := u\<rparr>))
     = magnitude (integral c) * k"
  by (simp add: integral_def flatten_map3 weighted_sum_scale)

lemma integral_scaled':
  "magnitude (integral (c\<lparr>data := map3 (\<lambda>v. v * a / b) (data c), data_unit := u\<rparr>))
     = magnitude (integral c) * a / b"
  using integral_scaled [where c = c and k = "a / b" and u = u] by simp

lemma unit_of_integral_update:
  "unit_of (integral (c\<lparr>data := d, data_unit := u\<rparr>)) = unit_mul u (volume_unit c)"
  by (simp add: integral_def)

lemma rescale_zero: "magnitude (integral c1) = 0 \<Longrightarrow> rescale c1 c2 = Inl ZeroDivisionError"
  by (simp add: rescale_def quantity_div_def Let_def)

lemma rescale_nonzero:
  "magnitude (integral c1) \<noteq> 0 \<Longrightarrow>
   rescale c1 c2 = Inr (c1\<lparr>data := map3 (\<lambda>v. v * (magnitude (integral c2) / magnitude (integral c1))) (data c1),
      data_unit := unit_mul (data_unit c1) (unit_div (unit_of (integral c2)) (unit_of (integral c1)))\<rparr>)"
  by (simp add: rescale_def quantity_div_def Let_def)

lemma unit_of_integral: "unit_of (integral c) = unit_mul (data_unit c) (volume_unit c)"
  by (simp add: integral_def)

lemma rescaled_integral:
  assumes "valid_cube c1" and "rescale c1 c2 = Inr m1"
  shows "quantity_eq (integral m1) (integral c2)"
proof -
  have nz: "magnitude (integral c1) \<noteq> 0"
    using assms(2) rescale_zero [of c1 c2] by auto
  note m1 = assms(2) [unfolded rescale_nonzero [OF nz]]
  have mag: "magnitude (integral m1) = magnitude (integral c2)"
    using m1 nz by (auto simp: integral_scaled')
  have un: "unit_of (integral m1) =
      unit_mul (unit_mul (data_unit c1) (unit_div (unit_of (integral c2)) (unit_of (integral c1))))
        (volume_unit c1)"
    using m1 by (auto simp: unit_of_integral_update)
  have pos: "0 < unit_scale (data_unit c1)" "0 < unit_scale (volume_unit c1)"
    using assms(1) by (simp_all add: valid_cube_def)
  show ?thesis
    using pos
    by (simp add: quantity_eq_def mag un unit_of_integral [of c1] unit_of_integral [of c2]
        unit_mul_def unit_div_def split: prod.splits)
qed

lemma normalize_returns:
  "normalize c1 c2 = Inr (m1, m2) \<longleftrightarrow>
     rescale c1 c2 = Inr m1
     \<and> unit_bases (data_unit c2) = unit_bases (data_unit m1)
     \<and> m2 = c2\<lparr>data := map3 (\<lambda>v. v * (unit_scale (data_unit c2) / unit_scale (data_unit m1))) (data c2),
              data_unit := data_unit m1\<rparr>"
  by (cases "rescale c1 c2") (auto simp: normalize_def quantity_to_def)

lemma rescaled_unit:
  assumes "rescale c1 c2 = Inr m1"
  shows "data_unit m1 = unit_mul (data_unit c1) (unit_div (unit_of (integral c2)) (unit_of (integral c1)))"
    and "volume_unit m1 = volume_unit c1"
proof -
  have nz: "magnitude (integral c1) \<noteq> 0"
    using assms rescale_zero [of c1 c2] by auto
  note m1 = assms [unfolded rescale_nonzero [OF nz]]
  show "data_unit m1 = unit_mul (data_unit c1) (unit_div (unit_of (integral c2)) (unit_of (integral c1)))"
    using m1 by auto
  show "volume_unit m1 = volume_unit c1"
    using m1 by auto
qed

lemma converted_integral:
  assumes "valid_cube c1" and "valid_cube c2" and "normalize c1 c2 = Inr (m1, m2)"
  shows "quantity_eq (integral m2) (integral c2)"
proof -
  from assms(3) have r: "rescale c1 c2 = Inr m1"
    and b: "unit_bases (data_unit c2) = unit_bases (data_unit m1)"
    and m2: "m2 = c2\<lparr>data := map3 (\<lambda>v. v * (unit_scale (data_unit c2) / unit_scale (data_unit m1))) (data c2),
              data_unit := data_unit m1\<rparr>"
    by (simp_all add: normalize_returns)
  have pos: "0 < unit_scale (data_unit c1)" "0 < unit_scale (volume_unit c1)"
     "0 < unit_scale (data_unit c2)" "0 < unit_scale (volume_unit c2)"
    using assms(1,2) by (simp_all add: valid_cube_def)
  have s: "unit_scale (data_unit m1) \<noteq> 0"
    unfolding rescaled_unit(1) [OF r] unit_of_integral
    using pos by (simp add: unit_mul_def unit_div_def split: prod.splits)
  have mag: "magnitude (integral m2) = magnitude (integral c2) * (unit_scale (data_unit c2) / unit_scale (data_unit m1))"
    unfolding m2 by (rule integral_scaled)
  have un: "unit_of (integral m2) = unit_mul (data_unit m1) (volume_unit c2)"
    unfolding m2 by (rule unit_of_integral_update)
  show ?thesis
    using s b by (simp add: quantity_eq_def mag un unit_of_integral [of c2] unit_mul_def split: prod.splits)
qed

lemma quantity_eq_sym: "quantity_eq a b \<Longrightarrow> quantity_eq b a"
  by (auto simp: quantity_eq_def)

lemma quantity_eq_trans: "quantity_eq a b \<Longrightarrow> quantity_eq b c \<Longrightarrow> quantity_eq a c"
  by (auto simp: quantity_eq_def)

lemma normalize_total:
  assumes "magnitude (integral c1) \<noteq> 0"
    and "unit_bases (volume_unit c1) = unit_bases (volume_unit c2)"
  shows "\<exists>m1 m2. normalize c1 c2 = Inr (m1, m2)"
  using assms
  by (simp add: normalize_def rescale_nonzero quantity_to_def unit_of_integral unit_mul_def unit_div_def
      split: prod.splits)

lemma normalize_conversion_error:
  assumes "magnitude (integral c1) \<noteq> 0"
    and "unit_bases (volume_unit c1) \<noteq> unit_bases (volume_unit c2)"
  shows "normalize c1 c2 = Inl UnitConversionError"
  using assms
  by (auto simp: normalize_def rescale_nonzero quantity_to_def unit_of_integral unit_mul_def
      unit_div_def split: prod.splits)

text \<open>
  C1, as the code has it: when the first cube's integral is not 0, the normalization
  step (the first cube's data multiplied by \<open>integral2 / integral1\<close>, the second
  cube's data converted to the first cube's unit) completes whenever the bin volumes
  of both cubes have the same dimension, and raises a UnitConversionError otherwise.
  After it the first cube's integral equals the second cube's integral, before and
  after the conversion, and both cubes have the same data unit. Over the reals the
  equality is exact.
\<close>

theorem normalization_invariant:
  assumes "valid_cube c1" and "valid_cube c2" and "magnitude (integral c1) \<noteq> 0"
  shows "if unit_bases (volume_unit c1) = unit_bases (volume_unit c2)
         then \<exists>m1 m2. normalize c1 c2 = Inr (m1, m2)
                \<and> data m1 = map3 (\<lambda>v. v * (magnitude (integral c2) / magnitude (integral c1)))
                                 (data c1)
                \<and> m2 = c2\<lparr>data := map3 (\<lambda>v. v * (unit_scale (data_unit c2) / unit_scale (data_unit m1)))
                                       (data c2),
                          data_unit := data_unit m1\<rparr>
                \<and> quantity_eq (integral m1) (integral c2)
                \<and> quantity_eq (integral m1) (integral m2)
                \<and> data_unit m2 = data_unit m1
         else normalize c1 c2 = Inl UnitConversionError"
proof (cases "unit_bases (volume_unit c1) = unit_bases (volume_unit c2)")
  case True
  obtain m1 m2 where n: "normalize c1 c2 = Inr (m1, m2)"
    using normalize_total [OF assms(3) True] by blast
  then have r: "rescale c1 c2 = Inr m1"
    and m2: "m2 = c2\<lparr>data := map3 (\<lambda>v. v * (unit_scale (data_unit c2) / unit_scale (data_unit m1)))
                                       (data c2),
                          data_unit := data_unit m1\<rparr>"
    by (simp_all add: normalize_returns)
  have d: "data m1 = map3 (\<lambda>v. v * (magnitude (integral c2) / magnitude (integral c1))) (data c1)"
    using r unfolding rescale_nonzero [OF assms(3)] by auto
  have e: "quantity_eq (integral m1) (integral c2)"
    using assms(1) r by (rule rescaled_integral)
  then have e': "quantity_eq (integral m1) (integral m2)"
    using converted_integral [OF assms(1,2) n] quantity_eq_sym quantity_eq_trans by blast
  have u: "data_unit m2 = data_unit m1"
    using n by (simp add: normalize_returns)
  have "\<exists>m1 m2. normalize c1 c2 = Inr (m1, m2)
                \<and> data m1 = map3 (\<lambda>v. v * (magnitude (integral c2) / magnitude (integral c1)))
                                 (data c1)
                \<and> m2 = c2\<lparr>data := map3 (\<lambda>v. v * (unit_scale (data_unit c2) / unit_scale (data_unit m1)))
                                       (data c2),
                          data_unit := data_unit m1\<rparr>
                \<and> quantity_eq (integral m1) (integral c2)
                \<and> quantity_eq (integral m1) (integral m2)
                \<and> data_unit m2 = data_unit m1"
    using n d m2 e e' u by (intro exI conjI)
  then show ?thesis
    unfolding if_P [OF True] .
next
  case False
  with assms(3) show ?thesis
    by (simp add: normalize_conversion_error)
qed

theorem normalization_invariant_witness:
  "(\<exists>m1 m2. normalize example_cube1 example_cube2 = Inr (m1, m2)
      \<and> data m1 = [[[2, 6]]]
      \<and> quantity_eq (integral m1) (integral example_cube2)
      \<and> quantity_eq (integral m1) (integral m2)
      \<and> data_unit m2 = data_unit m1)
   \<and> normalize example_cube1 solid_angle_cube = Inl UnitConversionError"
proof -
  have v: "valid_cube example_cube1" "valid_cube example_cube2" "valid_cube solid_angle_cube"
    by (simp_all add: valid_cube_def example_cube1_def example_cube2_def solid_angle_cube_def
        rate_unit_def rate_unit_GeV_def bin_unit_def)
  have nz: "magnitude (integral example_cube1) \<noteq> 0"
    by (simp add: integral_def weighted_sum_def example_cube1_def)
  have i: "magnitude (integral example_cube2) / magnitude (integral example_cube1) = 2"
    by (simp add: integral_def weighted_sum_def example_cube1_def example_cube2_def)
  have b: "unit_bases (volume_unit example_cube1) = unit_bases (volume_unit example_cube2)"
    "unit_bases (volume_unit example_cube1) \<noteq> unit_bases (volume_unit solid_angle_cube)"
    by (simp_all add: example_cube1_def example_cube2_def solid_angle_cube_def bin_unit_def)
  have d: "map3 (\<lambda>v. v * 2) (data example_cube1) = [[[2, 6]]]"
    by (simp add: map3_def example_cube1_def)
  have "\<exists>m1 m2. normalize example_cube1 example_cube2 = Inr (m1, m2)
      \<and> data m1 = [[[2, 6]]]
      \<and> quantity_eq (integral m1) (integral example_cube2)
      \<and> quantity_eq (integral m1) (integral m2)
      \<and> data_unit m2 = data_unit m1"
    using normalization_invariant [OF v(1,2) nz] b(1) i d by auto
  moreover have "normalize example_cube1 solid_angle_cube = Inl UnitConversionError"
    using normalization_invariant [OF v(1,3) nz] b(2) by simp
  ultimately show ?thesis ..
qed

text \<open>
  The claim C1 as stated fails for a first cube of integral 0. The quotient
  \<open>integral2 / integral1\<close> of line 69 is a division by zero, which numpy computes
  as \<^verbatim>\<open>inf\<close> without raising; the product makes every value of the first cube
  \<^verbatim>\<open>nan\<close>, and the step completes with integrals that are not equal. No real
  factor makes the integral of this cube equal to that of the second cube.
\<close>

theorem normalization_zero_integral_counterexample:
  "valid_cube zero_cube \<and> valid_cube example_cube2
   \<and> unit_bases (volume_unit zero_cube) = unit_bases (volume_unit example_cube2)
   \<and> magnitude (integral zero_cube) = 0
   \<and> rescale zero_cube example_cube2 = Inl ZeroDivisionError
   \<and> normalize zero_cube example_cube2 = Inl ZeroDivisionError
   \<and> (\<forall>k. \<not> quantity_eq
            (integral (zero_cube\<lparr>data := map3 (\<lambda>v. v * k) (data zero_cube)\<rparr>))
            (integral example_cube2))"
  by (simp add: valid_cube_def normalize_def rescale_def quantity_div_def quantity_eq_def
      integral_def weighted_sum_def map3_def unit_mul_def zero_cube_def example_cube2_def
      rate_unit_def rate_unit_GeV_def bin_unit_def Let_def)

lemma unit_mul_div_same:
  assumes "0 < unit_scale u" and "0 < unit_scale v"
  shows "unit_mul u (unit_div (unit_mul u v) (unit_mul u v)) = u"
  using assms
  by (cases u) (simp add: unit_mul_def unit_div_def split: prod.splits)

lemma rescale_same_units:
  assumes "valid_cube c1" and "data_unit c2 = data_unit c1" and "volume_unit c2 = volume_unit c1"
    and "rescale c1 c2 = Inr m1"
  shows "data_unit m1 = data_unit c1"
  using assms rescaled_unit(1) [OF assms(4)]
  by (simp add: unit_of_integral unit_mul_div_same valid_cube_def)

text \<open>
  C8: rescaling a cube whose elements are all 1 and whose integral is 10 to a cube of
  integral 25 gives a cube of the same shape whose every element is 2.5; when both
  cubes have the same units, the rescaled cube keeps its unit.
\<close>

theorem rescale_all_ones:
  assumes "magnitude (integral c1) = 10" and "magnitude (integral c2) = 25"
    and "\<forall>v \<in> set (concat (concat (data c1))). v = 1"
  shows "\<exists>m1. rescale c1 c2 = Inr m1
           \<and> (\<forall>v \<in> set (concat (concat (data m1))). v = 5 / 2)
           \<and> map (map length) (data m1) = map (map length) (data c1)
           \<and> (valid_cube c1 \<and> data_unit c2 = data_unit c1 \<and> volume_unit c2 = volume_unit c1
                \<longrightarrow> data_unit m1 = data_unit c1)"
proof -
  let ?m1 = "c1\<lparr>data := map3 (\<lambda>v. v * (25 / 10)) (data c1),
      data_unit := unit_mul (data_unit c1)
        (unit_div (unit_of (integral c2)) (unit_of (integral c1)))\<rparr>"
  have r: "rescale c1 c2 = Inr ?m1"
    using assms(1,2) rescale_nonzero [of c1 c2] by simp
  have "\<forall>v \<in> set (concat (concat (map3 (\<lambda>v. v * (25 / 10)) (data c1)))). v = 5 / 2"
    unfolding flatten_map3 using assms(3) by auto
  moreover have "data_unit ?m1 = data_unit c1"
    if "valid_cube c1 \<and> data_unit c2 = data_unit c1 \<and> volume_unit c2 = volume_unit c1"
    using that rescale_same_units [OF _ _ _ r] by blast
  ultimately show ?thesis
    using r by (simp add: shape_map3)
qed

theorem rescale_all_ones_witness:
  "\<exists>m1. rescale ones_cube target_cube = Inr m1
     \<and> data m1 = [[[5 / 2, 5 / 2, 5 / 2, 5 / 2, 5 / 2], [5 / 2, 5 / 2, 5 / 2, 5 / 2, 5 / 2]]]
     \<and> data_unit m1 = rate_unit"
proof -
  have i: "magnitude (integral ones_cube) = 10" "magnitude (integral target_cube) = 25"
    by (simp_all add: integral_def weighted_sum_def ones_cube_def target_cube_def)
  have o: "\<forall>v \<in> set (concat (concat (data ones_cube))). v = 1"
    by (simp add: ones_cube_def)
  have u: "valid_cube ones_cube \<and> data_unit target_cube = data_unit ones_cube
      \<and> volume_unit target_cube = volume_unit ones_cube"
    by (simp add: valid_cube_def ones_cube_def target_cube_def rate_unit_def bin_unit_def)
  obtain m1 where m1: "rescale ones_cube target_cube = Inr m1"
    and d: "data_unit m1 = data_unit ones_cube"
    using rescale_all_ones [OF i o] u by blast
  have "data m1 = map3 (\<lambda>v. v * (25 / 10)) (data ones_cube)"
    using m1 i rescale_nonzero [of ones_cube target_cube] by auto
  then show ?thesis
    using m1 d by (simp add: ones_cube_def map3_def)
qed

text \<open>
  C9: the rescaling divides by the first cube's integral without a check. When that
  integral is 0 the step is a division by zero, whatever the second cube is; when it
  is not 0 the step returns the rescaled cube.
\<close>

theorem rescale_division_by_zero:
  "(magnitude (integral c1) = 0 \<longrightarrow>
      rescale c1 c2 = Inl ZeroDivisionError \<and> normalize c1 c2 = Inl ZeroDivisionError)
   \<and> (magnitude (integral c1) \<noteq> 0 \<longrightarrow> (\<exists>m1. rescale c1 c2 = Inr m1))"
  by (simp add: rescale_zero rescale_nonzero normalize_def)

theorem rescale_division_by_zero_witness:
  "magnitude (integral zero_cube) = 0
   \<and> rescale zero_cube example_cube2 = Inl ZeroDivisionError
   \<and> normalize zero_cube example_cube2 = Inl ZeroDivisionError
   \<and> magnitude (integral example_cube1) \<noteq> 0
   \<and> (\<exists>m1. rescale example_cube1 example_cube2 = Inr m1)"
proof -
  have z: "magnitude (integral zero_cube) = 0"
    by (simp add: integral_def weighted_sum_def zero_cube_def)
  have nz: "magnitude (integral example_cube1) \<noteq> 0"
    by (simp add: integral_def weighted_sum_def example_cube1_def)
  show ?thesis
    using z nz rescale_division_by_zero [of zero_cube example_cube2]
      rescale_division_by_zero [of example_cube1 example_cube2]
    by blast
qed

section \<open>Properties of the overlay curves\<close>

lemma powr_base_inj:
  fixes x y a :: real
  assumes "0 < x" "0 < y" "a \<noteq> 0" "x powr a = y powr a"
  shows "x = y"
proof -
  have "(x powr a) powr (1 / a) = (y powr a) powr (1 / a)"
    using assms(4) by simp
  then show ?thesis
    using assms(1-3) by (simp add: powr_powr)
qed

lemma four_powr: "(4::real) powr a = 2 powr (2 * a)"
proof -
  have "(4::real) = 2 powr 2" by simp
  then have "(4::real) powr a = (2 powr 2) powr a" by simp
  also have "\<dots> = 2 powr (2 * a)" by (simp only: powr_powr)
  finally show ?thesis .
qed

lemma sixteen_powr: "(16::real) powr a = 2 powr (4 * a)"
proof -
  have "(16::real) = 2 powr 4" by simp
  then have "(16::real) powr a = (2 powr 4) powr a" by simp
  also have "\<dots> = 2 powr (4 * a)" by (simp only: powr_powr)
  finally show ?thesis .
qed

lemma map_result_power_law:
  assumes "\<forall>x \<in> set xs. 0 < x" and "0 < E_0"
  shows "map_result (\<lambda>energy. power_law energy E_0 n index) xs
       = Inr (map (\<lambda>energy. spec_power_law energy E_0 n index) xs)"
  using assms by (induction xs) (simp_all add: power_law_def spec_power_law_def)

lemma spec_int_power_law_nonzero:
  assumes "0 < E_0" "index \<noteq> 1" "n \<noteq> 0" "0 < a" "0 < b" "a \<noteq> b"
  shows "spec_int_power_law a b E_0 n index \<noteq> 0"
proof -
  have "b powr (1 - index) \<noteq> a powr (1 - index)"
    using powr_base_inj [of b a "1 - index"] assms by auto
  then show ?thesis
    using assms by (simp add: spec_int_power_law_def)
qed

lemma normed_PL_value:
  assumes "xs \<noteq> []" and "\<forall>x \<in> set xs. 0 < x" and "hd xs \<noteq> last xs"
    and "0 < E_0" and "index \<noteq> 1" and "n \<noteq> 0"
  shows "normed_PL xs ys E_0 n index =
     Inr (map (\<lambda>energy. trapz ys xs / spec_int_power_law (hd xs) (last xs) E_0 n index
                 * spec_power_law energy E_0 n index) xs)"
proof -
  have h: "0 < hd xs" "0 < last xs"
    using assms(1,2) by simp_all
  have i: "int_power_law [hd xs, last xs] E_0 n index
      = Inr (spec_int_power_law (hd xs) (last xs) E_0 n index)"
    using h assms(4,5) by (simp add: int_power_law_def spec_int_power_law_def)
  have nz: "spec_int_power_law (hd xs) (last xs) E_0 n index \<noteq> 0"
    using spec_int_power_law_nonzero assms h by blast
  show ?thesis
    using assms(1) i nz map_result_power_law [OF assms(2,4)]
    by (simp add: normed_PL_def py_getitem_first py_getitem_last comp_def)
qed

lemma normed_PL_flat1:
  "normed_PL [1, 4, 16] [1, 1, 1] E_REF NORM INDEX = Inr [10, 5 / 4, 5 / 32]"
  by (simp add: normed_PL_def py_getitem_def int_power_law_def power_law_def E_REF_def NORM_def
      INDEX_def four_powr sixteen_powr powr_minus)

lemma normed_PL_flat1': "normed_PL [1, 4, 16] [1, 1, 1] E_REF NORM (INDEX + 1) = Inr [160 / 7, 5 / 7, 5 / 224]"
  by (simp add: normed_PL_def py_getitem_def int_power_law_def power_law_def E_REF_def NORM_def INDEX_def
     four_powr sixteen_powr powr_minus)

lemma normed_PL_flat2:
  "normed_PL [1, 4, 16] [2, 2, 2] E_REF NORM INDEX = Inr [20, 5 / 2, 5 / 16]"
  by (simp add: normed_PL_def py_getitem_def int_power_law_def power_law_def E_REF_def NORM_def
      INDEX_def four_powr sixteen_powr powr_minus)

lemma overlay_first:
  assumes "get_lines ax = l # rest"
  shows "overlay ax E_0 n index style =
     and_then (normed_PL (map fst (xydata l)) (map snd (xydata l)) E_0 n index) (\<lambda>normed.
       Inr (plot ax (map fst (xydata l)) normed Blue style 2 (ModelIndex index)))"
  using assms by (simp add: overlay_def py_getitem_def Let_def)

lemma example_panel_lines:
  "get_lines example_panel =
     [\<lparr>xydata = [(1, 1), (4, 1), (16, 1)], line_color = Blue, line_style = None,
        line_width = None, line_label = Name ''true''\<rparr>,
      \<lparr>xydata = [(1, 2), (4, 2), (16, 2)], line_color = Red, line_style = None,
        line_width = None, line_label = Name ''reco''\<rparr>]"
  by (simp add: example_panel_def plot_spectrum_def example_library_def flat_cube1_def
      flat_cube2_def empty_axes_def)

lemma example_spectra:
  "spectrum_at example_library flat_cube1 coord =
     \<lparr>spec_title = ''det bin: 3x3'', points = [(1, 1), (4, 1), (16, 1)]\<rparr>"
  "spectrum_at example_library flat_cube2 coord =
     \<lparr>spec_title = ''det bin: 3x3'', points = [(1, 2), (4, 2), (16, 2)]\<rparr>"
  "spectrum_at example_library two_bin_cube coord =
     \<lparr>spec_title = ''det bin: 5x5'', points = [(1, 1), (4, 1), (16, 1)]\<rparr>"
  by (simp_all add: example_library_def flat_cube1_def flat_cube2_def two_bin_cube_def)

text \<open>
  C7, as the code has it: each overlay curve is the power law at the sample energies
  of the curve read back, multiplied by \<open>plot_data_int / model_int\<close>, the
  trapezoidal integral of that curve divided by the closed-form integral of the power
  law over the band from the first to the last sample energy. The factor makes the
  closed-form integral of the scaled power law over that band equal to the
  trapezoidal integral of the curve. (The sample energies are positive, the first
  differs from the last, and \<open>E_0 > 0\<close>, \<open>index \<noteq> 1\<close>, \<open>norm \<noteq> 0\<close>, as in
  the script.)
\<close>

theorem overlay_scaling:
  assumes "get_lines ax = l # rest"
    and "xs = map fst (xydata l)" and "ys = map snd (xydata l)"
    and "xs \<noteq> []" and "\<forall>x \<in> set xs. 0 < x" and "hd xs \<noteq> last xs"
    and "0 < E_0" and "index \<noteq> 1" and "norm' \<noteq> 0"
  shows "int_power_law [hd xs, last xs] E_0 norm' index
           = Inr (spec_int_power_law (hd xs) (last xs) E_0 norm' index)
       \<and> overlay ax E_0 norm' index style =
           Inr (plot ax xs
                 (map (\<lambda>energy. trapz ys xs / spec_int_power_law (hd xs) (last xs) E_0 norm' index
                          * spec_power_law energy E_0 norm' index) xs)
                 Blue style 2 (ModelIndex index))
       \<and> trapz ys xs / spec_int_power_law (hd xs) (last xs) E_0 norm' index
           * spec_int_power_law (hd xs) (last xs) E_0 norm' index = trapz ys xs"
proof -
  have h: "0 < hd xs" "0 < last xs"
    using assms(4,5) by simp_all
  have i: "int_power_law [hd xs, last xs] E_0 norm' index
      = Inr (spec_int_power_law (hd xs) (last xs) E_0 norm' index)"
    using h assms(7,8) by (simp add: int_power_law_def spec_int_power_law_def)
  have nz: "spec_int_power_law (hd xs) (last xs) E_0 norm' index \<noteq> 0"
    using spec_int_power_law_nonzero assms(6-9) h by blast
  have o: "overlay ax E_0 norm' index style =
           Inr (plot ax xs
                 (map (\<lambda>energy. trapz ys xs / spec_int_power_law (hd xs) (last xs) E_0 norm' index
                          * spec_power_law energy E_0 norm' index) xs)
                 Blue style 2 (ModelIndex index))"
    unfolding overlay_first [OF assms(1)] assms(2,3) [symmetric]
    using normed_PL_value [OF assms(4-9)] by simp
  show ?thesis using i nz o by simp
qed

theorem overlay_scaling_witness:
  "overlay example_panel E_REF NORM INDEX Dotted =
     Inr (plot example_panel [1, 4, 16] [10, 5 / 4, 5 / 32] Blue Dotted 2 (ModelIndex INDEX))
   \<and> int_power_law [1, 16] E_REF NORM INDEX = Inr (3 / 2)
   \<and> trapz [1, 1, 1] [1, 4, 16] = 15"
proof -
  have s: "spec_int_power_law 1 16 E_REF NORM INDEX = 3 / 2"
    by (simp add: spec_int_power_law_def E_REF_def NORM_def INDEX_def sixteen_powr powr_minus)
  have p: "spec_power_law 1 E_REF NORM INDEX = 1" "spec_power_law 4 E_REF NORM INDEX = 1 / 8"
    "spec_power_law 16 E_REF NORM INDEX = 1 / 64"
    by (simp_all add: spec_power_law_def E_REF_def NORM_def INDEX_def four_powr sixteen_powr
        powr_minus)
  have c: "0 < E_REF" "INDEX \<noteq> 1" "NORM \<noteq> 0"
    by (simp_all add: E_REF_def INDEX_def NORM_def)
  show ?thesis
    using overlay_scaling [OF example_panel_lines, of "[1, 4, 16]" "[1, 1, 1]" E_REF INDEX NORM Dotted] c
    by (simp add: s p)
qed

text \<open>
  The claim C7 as stated fails: the trapezoidal integral of the overlay curve itself
  is not that of the plotted curve. For a curve of constant rate 1 sampled at 1, 4
  and 16 TeV the trapezoidal integral is 15, and that of the dotted overlay is
  405/16.
\<close>

theorem overlay_trapz_counterexample:
  "overlay example_panel E_REF NORM INDEX Dotted =
     Inr (plot example_panel [1, 4, 16] [10, 5 / 4, 5 / 32] Blue Dotted 2 (ModelIndex INDEX))
   \<and> trapz [1, 1, 1] [1, 4, 16] = 15
   \<and> trapz [10, 5 / 4, 5 / 32] [1, 4, 16] = 405 / 16"
  by (simp add: overlay_first [OF example_panel_lines] normed_PL_flat1)

text \<open>
  C6, as the code has it: the overlay is computed from the sample points of the first
  curve of the panel, whatever curves were added after it. In a spectral panel that
  starts empty this is the first cube's spectrum, for the dotted and for the dashed
  overlay: the result of the panel is determined by that spectrum's points.
\<close>

theorem overlay_reads_first_curve:
  "(get_lines ax = l # rest \<longrightarrow>
      overlay ax E_0 norm' index style =
        and_then (normed_PL (map fst (xydata l)) (map snd (xydata l)) E_0 norm' index)
          (\<lambda>normed. Inr (plot ax (map fst (xydata l)) normed Blue style 2 (ModelIndex index))))
   \<and> (get_lines ax = []
        \<and> spec_title (spectrum_at lib c1 coord) = spec_title (spectrum_at lib c2 coord) \<longrightarrow>
      spectral_panel lib c1 c2 name1 name2 coord ax =
        (let xs = map fst (points (spectrum_at lib c1 coord));
             ys = map snd (points (spectrum_at lib c1 coord));
             ax3 = (plot_spectrum lib c2 coord (plot_spectrum lib c1 coord ax Blue name1) Red name2)
                     \<lparr>title := spec_title (spectrum_at lib c1 coord)\<rparr>
         in case normed_PL xs ys E_REF NORM INDEX of
              Inl e \<Rightarrow> (Some e, ax3)
            | Inr pl1 \<Rightarrow>
               (let ax4 = plot ax3 xs pl1 Blue Dotted 2 (ModelIndex INDEX)
                in case normed_PL xs ys E_REF NORM (INDEX + 1) of
                     Inl e \<Rightarrow> (Some e, ax4)
                   | Inr pl2 \<Rightarrow>
                       (None, (plot ax4 xs pl2 Blue Dashed 2 (ModelIndex (INDEX + 1)))
                                \<lparr>legend := True\<rparr>))))"
proof (intro conjI impI)
  assume "get_lines ax = l # rest"
  then show "overlay ax E_0 norm' index style =
        and_then (normed_PL (map fst (xydata l)) (map snd (xydata l)) E_0 norm' index)
          (\<lambda>normed. Inr (plot ax (map fst (xydata l)) normed Blue style 2 (ModelIndex index)))"
    by (rule overlay_first)
next
  assume a: "get_lines ax = []
        \<and> spec_title (spectrum_at lib c1 coord) = spec_title (spectrum_at lib c2 coord)"
  let ?l1 = "\<lparr>xydata = points (spectrum_at lib c1 coord), line_color = Blue, line_style = None,
                 line_width = None, line_label = Name name1\<rparr>"
  let ?ax3 = "(plot_spectrum lib c2 coord (plot_spectrum lib c1 coord ax Blue name1) Red name2)
                     \<lparr>title := spec_title (spectrum_at lib c1 coord)\<rparr>"
  have l3: "get_lines ?ax3 = ?l1 # [\<lparr>xydata = points (spectrum_at lib c2 coord), line_color = Red,
      line_style = None, line_width = None, line_label = Name name2\<rparr>]"
    using a by (simp add: plot_spectrum_def Let_def)
  have l4: "get_lines (plot ?ax3 xs pl Blue st w lab) = ?l1 # (tl (get_lines ?ax3) @
      [\<lparr>xydata = zip xs pl, line_color = Blue, line_style = Some st,
            line_width = Some w, line_label = lab\<rparr>])" for xs pl st w lab
    by (simp add: plot_def l3)
  have t: "title (plot_spectrum lib c1 coord ax Blue name1) = spec_title (spectrum_at lib c1 coord)"
    "title (plot_spectrum lib c2 coord (plot_spectrum lib c1 coord ax Blue name1) Red name2)
       = spec_title (spectrum_at lib c2 coord)"
    by (simp_all add: plot_spectrum_def Let_def)
  show "spectral_panel lib c1 c2 name1 name2 coord ax =
        (let xs = map fst (points (spectrum_at lib c1 coord));
             ys = map snd (points (spectrum_at lib c1 coord));
             ax3 = (plot_spectrum lib c2 coord (plot_spectrum lib c1 coord ax Blue name1) Red name2)
                     \<lparr>title := spec_title (spectrum_at lib c1 coord)\<rparr>
         in case normed_PL xs ys E_REF NORM INDEX of
              Inl e \<Rightarrow> (Some e, ax3)
            | Inr pl1 \<Rightarrow>
               (let ax4 = plot ax3 xs pl1 Blue Dotted 2 (ModelIndex INDEX)
                in case normed_PL xs ys E_REF NORM (INDEX + 1) of
                     Inl e \<Rightarrow> (Some e, ax4)
                   | Inr pl2 \<Rightarrow>
                       (None, (plot ax4 xs pl2 Blue Dashed 2 (ModelIndex (INDEX + 1)))
                                \<lparr>legend := True\<rparr>)))"
  proof -
    let ?xs = "map fst (points (spectrum_at lib c1 coord))"
    let ?ys = "map snd (points (spectrum_at lib c1 coord))"
    have o1: "overlay ?ax3 E_REF NORM INDEX Dotted =
        and_then (normed_PL ?xs ?ys E_REF NORM INDEX)
          (\<lambda>normed. Inr (plot ?ax3 ?xs normed Blue Dotted 2 (ModelIndex INDEX)))"
      using overlay_first [OF l3] by simp
    have o2: "overlay (plot ?ax3 ?xs pl Blue Dotted 2 (ModelIndex INDEX)) E_REF NORM (INDEX + 1) Dashed =
        and_then (normed_PL ?xs ?ys E_REF NORM (INDEX + 1))
          (\<lambda>normed. Inr (plot (plot ?ax3 ?xs pl Blue Dotted 2 (ModelIndex INDEX)) ?xs normed
              Blue Dashed 2 (ModelIndex (INDEX + 1))))" for pl
      using overlay_first [OF l4] by simp
    have sp: "spectral_panel lib c1 c2 name1 name2 coord ax =
        (case overlay ?ax3 E_REF NORM INDEX Dotted of
           Inl e \<Rightarrow> (Some e, ?ax3)
         | Inr ax4 \<Rightarrow>
            (case overlay ax4 E_REF NORM (INDEX + 1) Dashed of
               Inl e \<Rightarrow> (Some e, ax4)
             | Inr ax5 \<Rightarrow> (None, ax5\<lparr>legend := True\<rparr>)))"
      unfolding spectral_panel_def Let_def t using a by simp
    show ?thesis
    proof (cases "normed_PL ?xs ?ys E_REF NORM INDEX")
      case (Inl e)
      then show ?thesis by (simp add: sp o1 Let_def)
    next
      case first: (Inr pl1)
      show ?thesis
      proof (cases "normed_PL ?xs ?ys E_REF NORM (INDEX + 1)")
        case (Inl e)
        with first show ?thesis by (simp add: sp o1 o2 Let_def)
      next
        case (Inr pl2)
        with first show ?thesis by (simp add: sp o1 o2 Let_def)
      qed
    qed
  qed
qed

theorem overlay_reads_first_curve_witness:
  "fst (spectral_panel example_library flat_cube1 flat_cube2 ''true'' ''reco'' (0, 0) empty_axes)
     = None
   \<and> map (\<lambda>l. map snd (xydata l))
        (get_lines (snd (spectral_panel example_library flat_cube1 flat_cube2 ''true'' ''reco''
           (0, 0) empty_axes)))
     = [[1, 1, 1], [2, 2, 2], [10, 5 / 4, 5 / 32], [160 / 7, 5 / 7, 5 / 224]]"
proof -
  have e: "get_lines empty_axes = []
      \<and> spec_title (spectrum_at example_library flat_cube1 (0, 0))
        = spec_title (spectrum_at example_library flat_cube2 (0, 0))"
    by (simp add: empty_axes_def example_spectra)
  show ?thesis
    using overlay_reads_first_curve [of empty_axes _ _ _ _ _ _ example_library flat_cube1 "(0, 0)"
        flat_cube2 "''true''" "''reco''"] e
    by (simp add: example_spectra normed_PL_flat1 normed_PL_flat1' plot_def plot_spectrum_def
        empty_axes_def)
qed

text \<open>
  The claim C6 as stated fails: on the panel with the spectra of two cubes of constant
  rate 1 and 2, the code scales the overlay to the first curve (rate 1), and reading
  back the most recently plotted curve (rate 2) would give another overlay.
\<close>

theorem overlay_most_recent_counterexample:
  "(\<exists>ax. overlay example_panel E_REF NORM INDEX Dotted = Inr ax
         \<and> map snd (xydata (last (get_lines ax))) = [10, 5 / 4, 5 / 32])
   \<and> (\<exists>ax. spec_overlay_most_recent example_panel E_REF NORM INDEX Dotted = Inr ax
         \<and> map snd (xydata (last (get_lines ax))) = [20, 5 / 2, 5 / 16])"
  by (simp add: overlay_first [OF example_panel_lines] spec_overlay_most_recent_def
      example_panel_lines py_getitem_def normed_PL_flat1 normed_PL_flat2 plot_def)

section \<open>The error the script raises\<close>

lemma and_then_error:
  assumes "and_then m f = Inl e"
  obtains "m = Inl e" | v where "m = Inr v" "f v = Inl e"
  using assms by (cases m) simp_all

lemma py_div_error: "py_div x y = Inl e \<Longrightarrow> computed_error e"
  by (auto simp: py_div_def computed_error_def split: if_splits)

lemma py_pow_error: "py_pow x y = Inl e \<Longrightarrow> computed_error e"
  by (auto simp: py_pow_def computed_error_def split: if_splits)

lemma py_getitem_error: "py_getitem xs i = Inl e \<Longrightarrow> computed_error e"
  by (auto simp: py_getitem_def computed_error_def split: if_splits)

lemma power_law_error: "power_law energy E_0 n index = Inl e \<Longrightarrow> computed_error e"
  unfolding power_law_def
  by (auto elim!: and_then_error dest: py_div_error py_pow_error)

lemma int_power_law_error: "int_power_law band E_0 n index = Inl e \<Longrightarrow> computed_error e"
  unfolding int_power_law_def
  by (auto elim!: and_then_error dest: py_div_error py_pow_error py_getitem_error)

lemma map_result_error:
  assumes "\<And>x e. f x = Inl e \<Longrightarrow> computed_error e"
  shows "map_result f xs = Inl e \<Longrightarrow> computed_error e"
proof (induction xs)
  case Nil
  then show ?case by simp
next
  case (Cons x xs)
  from Cons.prems show ?case
    by (auto elim!: and_then_error dest: assms Cons.IH)
qed

lemma map_power_law_error:
  "map_result (\<lambda>energy. power_law energy E_0 n index) xs = Inl e \<Longrightarrow> computed_error e"
  by (rule map_result_error [where f = "\<lambda>energy. power_law energy E_0 n index"])
    (rule power_law_error)

lemma normed_PL_error: "normed_PL xs ys E_0 n index = Inl e \<Longrightarrow> computed_error e"
  unfolding normed_PL_def Let_def
  by (auto elim!: and_then_error
      dest: py_div_error py_getitem_error int_power_law_error map_power_law_error)

lemma overlay_error: "overlay ax E_0 n index style = Inl e \<Longrightarrow> computed_error e"
  unfolding overlay_def Let_def
  by (auto elim!: and_then_error dest: py_getitem_error normed_PL_error)

lemma normalize_error: "normalize c1 c2 = Inl e \<Longrightarrow> computed_error e"
  unfolding normalize_def rescale_def quantity_div_def quantity_to_def Let_def
  by (auto elim!: and_then_error dest: py_div_error simp: computed_error_def split: if_splits)

lemma computed_error_not_ValueError [simp]: "\<not> computed_error (ValueError m)"
  by (simp add: computed_error_def)

lemma plot_spectrum_title [simp]:
  "title (plot_spectrum lib c coord ax col lab) = spec_title (spectrum_at lib c coord)"
  by (simp add: plot_spectrum_def Let_def)

lemma spectral_panel_mismatch:
  assumes "spec_title (spectrum_at lib c1 coord) \<noteq> spec_title (spectrum_at lib c2 coord)"
  shows "spectral_panel lib c1 c2 name1 name2 coord ax =
     (Some (ValueError (s_error (spec_title (spectrum_at lib c1 coord))
                                (spec_title (spectrum_at lib c2 coord)))),
      plot_spectrum lib c2 coord (plot_spectrum lib c1 coord ax Blue name1) Red name2)"
  using assms by (simp add: spectral_panel_def Let_def)

lemma spectral_panel_match:
  assumes "spec_title (spectrum_at lib c1 coord) = spec_title (spectrum_at lib c2 coord)"
    and "fst (spectral_panel lib c1 c2 name1 name2 coord ax) = Some e"
  shows "computed_error e"
  using assms
  by (auto simp: spectral_panel_def Let_def split: sum.splits dest: overlay_error)

lemma spectral_panel_ValueError:
  "(\<exists>m. fst (spectral_panel lib c1 c2 name1 name2 coord ax) = Some (ValueError m))
     \<longleftrightarrow> spec_title (spectrum_at lib c1 coord) \<noteq> spec_title (spectrum_at lib c2 coord)"
  using spectral_panel_match [of lib c1 coord c2 name1 name2 ax]
    spectral_panel_mismatch [of lib c1 coord c2 name1 name2 ax]
  by (cases "spec_title (spectrum_at lib c1 coord) = spec_title (spectrum_at lib c2 coord)") auto

lemma s_error_contains:
  "sublist t1 (s_error t1 t2)" "sublist t2 (s_error t1 t2)"
proof -
  have "s_error t1 t2 = (''Expected same det binning, but got '' @ [CHR 0x22]) @ t1 @
      ([CHR 0x22] @ '' and '' @ [CHR 0x22] @ t2 @ [CHR 0x22])"
    by (simp add: s_error_def)
  then show "sublist t1 (s_error t1 t2)"
    unfolding sublist_def by blast
  have "s_error t1 t2 = (''Expected same det binning, but got '' @ [CHR 0x22] @ t1 @ [CHR 0x22]
      @ '' and '' @ [CHR 0x22]) @ t2 @ [CHR 0x22]"
    by (simp add: s_error_def)
  then show "sublist t2 (s_error t1 t2)"
    unfolding sublist_def by blast
qed

lemma spectral_panel_ValueError_dest:
  assumes "fst (spectral_panel lib c1 c2 name1 name2 coord ax) = Some (ValueError m)"
  shows "spec_title (spectrum_at lib c1 coord) \<noteq> spec_title (spectrum_at lib c2 coord)
       \<and> m = s_error (spec_title (spectrum_at lib c1 coord)) (spec_title (spectrum_at lib c2 coord))"
proof (cases "spec_title (spectrum_at lib c1 coord) = spec_title (spectrum_at lib c2 coord)")
  case True
  from spectral_panel_match [OF True assms] show ?thesis by simp
next
  case False
  with assms show ?thesis by (simp add: spectral_panel_mismatch)
qed

subsection \<open>Which outcomes of a panel end the run\<close>

lemma exception_of_simps [simp]:
  "exception_of None = None"
  "exception_of (Some (ValueError m)) = Some (ValueError m)"
  "exception_of (Some IndexError) = Some IndexError"
  "exception_of (Some ZeroDivisionError) = None"
  "exception_of (Some ComplexResult) = None"
  by (simp_all add: exception_of_def is_exception_def)

lemma exception_of_no_exception: "\<not> is_exception e \<Longrightarrow> exception_of (Some e) = None"
  by (simp add: exception_of_def)

lemma py_div_no_exception: "py_div x y = Inl e \<Longrightarrow> \<not> is_exception e"
  by (auto simp: py_div_def is_exception_def split: if_splits)

lemma py_pow_no_exception: "py_pow x y = Inl e \<Longrightarrow> \<not> is_exception e"
  by (auto simp: py_pow_def is_exception_def split: if_splits)

lemma power_law_no_exception: "power_law energy E_0 n index = Inl e \<Longrightarrow> \<not> is_exception e"
  unfolding power_law_def
  by (auto elim!: and_then_error dest: py_div_no_exception py_pow_no_exception)

lemma int_power_law_no_exception:
  "int_power_law [a, b] E_0 n index = Inl e \<Longrightarrow> \<not> is_exception e"
  unfolding int_power_law_def
  by (auto elim!: and_then_error dest: py_div_no_exception py_pow_no_exception)

lemma map_power_law_no_exception:
  "map_result (\<lambda>energy. power_law energy E_0 n index) xs = Inl e \<Longrightarrow> \<not> is_exception e"
proof (induction xs)
  case Nil
  then show ?case by simp
next
  case (Cons x xs)
  from Cons.prems show ?case
    by (auto elim!: and_then_error dest: power_law_no_exception Cons.IH)
qed

lemma normed_PL_empty: "normed_PL [] ys E_0 n index = Inl IndexError"
  by (simp add: normed_PL_def py_getitem_def)

lemma normed_PL_no_exception:
  assumes "xs \<noteq> []" and "normed_PL xs ys E_0 n index = Inl e"
  shows "\<not> is_exception e"
  using assms(2) unfolding normed_PL_def Let_def
  by (auto simp: py_getitem_first [OF assms(1)] py_getitem_last [OF assms(1)]
      elim!: and_then_error
      dest: py_div_no_exception int_power_law_no_exception map_power_law_no_exception)

lemma overlay_outcome:
  assumes "get_lines ax = l # rest"
  shows "(xydata l = [] \<longrightarrow> overlay ax E_0 n index style = Inl IndexError)
       \<and> (xydata l \<noteq> [] \<longrightarrow> (\<forall>e. overlay ax E_0 n index style = Inl e \<longrightarrow> \<not> is_exception e))
       \<and> (\<forall>ax'. overlay ax E_0 n index style = Inr ax' \<longrightarrow>
             (\<exists>new. get_lines ax' = l # rest @ [new]) \<and> title ax' = title ax)"
proof (intro conjI impI allI)
  assume "xydata l = []"
  then show "overlay ax E_0 n index style = Inl IndexError"
    by (simp add: overlay_first [OF assms] normed_PL_empty)
next
  fix e
  assume "xydata l \<noteq> []" and "overlay ax E_0 n index style = Inl e"
  then show "\<not> is_exception e"
    unfolding overlay_first [OF assms]
    by (auto elim!: and_then_error dest: normed_PL_no_exception [rotated])
next
  fix ax'
  assume "overlay ax E_0 n index style = Inr ax'"
  then obtain normed where "ax' = plot ax (map fst (xydata l)) normed Blue style 2 (ModelIndex index)"
    unfolding overlay_first [OF assms]
    by (cases "normed_PL (map fst (xydata l)) (map snd (xydata l)) E_0 n index") auto
  then show "\<exists>new. get_lines ax' = l # rest @ [new]" and "title ax' = title ax"
    using assms by (simp_all add: plot_def)
qed

lemma spectral_panel_exception:
  assumes "get_lines ax = []"
  shows "exception_of (fst (spectral_panel lib c1 c2 name1 name2 coord ax)) =
     (if spec_title (spectrum_at lib c1 coord) \<noteq> spec_title (spectrum_at lib c2 coord)
      then Some (ValueError (s_error (spec_title (spectrum_at lib c1 coord))
                                     (spec_title (spectrum_at lib c2 coord))))
      else if points (spectrum_at lib c1 coord) = [] then Some IndexError
      else None)"
proof (cases "spec_title (spectrum_at lib c1 coord) = spec_title (spectrum_at lib c2 coord)")
  case False
  then show ?thesis by (simp add: spectral_panel_mismatch)
next
  case True
  let ?l1 = "\<lparr>xydata = points (spectrum_at lib c1 coord), line_color = Blue, line_style = None,
                 line_width = None, line_label = Name name1\<rparr>"
  let ?ax3 = "(plot_spectrum lib c2 coord (plot_spectrum lib c1 coord ax Blue name1) Red name2)
                     \<lparr>title := spec_title (spectrum_at lib c1 coord)\<rparr>"
  have l3: "get_lines ?ax3 = ?l1 # [\<lparr>xydata = points (spectrum_at lib c2 coord), line_color = Red,
      line_style = None, line_width = None, line_label = Name name2\<rparr>]"
    using assms by (simp add: plot_spectrum_def Let_def)
  have sp: "spectral_panel lib c1 c2 name1 name2 coord ax =
        (case overlay ?ax3 E_REF NORM INDEX Dotted of
           Inl e \<Rightarrow> (Some e, ?ax3)
         | Inr ax4 \<Rightarrow>
            (case overlay ax4 E_REF NORM (INDEX + 1) Dashed of
               Inl e \<Rightarrow> (Some e, ax4)
             | Inr ax5 \<Rightarrow> (None, ax5\<lparr>legend := True\<rparr>)))"
    unfolding spectral_panel_def Let_def plot_spectrum_title using True by simp
  note o1 = overlay_outcome [OF l3, of E_REF NORM INDEX Dotted]
  show ?thesis
  proof (cases "points (spectrum_at lib c1 coord) = []")
    case empty: True
    with o1 have "overlay ?ax3 E_REF NORM INDEX Dotted = Inl IndexError" by simp
    with True empty show ?thesis by (simp add: sp)
  next
    case nonempty: False
    show ?thesis
    proof (cases "overlay ?ax3 E_REF NORM INDEX Dotted")
      case (Inl e)
      with o1 nonempty have "\<not> is_exception e" by simp
      with Inl True nonempty show ?thesis by (simp add: sp exception_of_no_exception)
    next
      case (Inr ax4)
      with o1 obtain new where l4: "get_lines ax4 = ?l1 # [\<lparr>xydata = points (spectrum_at lib c2 coord), line_color = Red,
      line_style = None, line_width = None, line_label = Name name2\<rparr>] @ [new]"
        by auto
      note o2 = overlay_outcome [OF l4, of E_REF NORM "INDEX + 1" Dashed]
      show ?thesis
      proof (cases "overlay ax4 E_REF NORM (INDEX + 1) Dashed")
        case e2: (Inl e)
        with o2 nonempty have "\<not> is_exception e" by simp
        with Inr e2 True nonempty show ?thesis by (simp add: sp exception_of_no_exception)
      next
        case (Inr ax5)
        with \<open>overlay ?ax3 E_REF NORM INDEX Dotted = Inr ax4\<close> True nonempty show ?thesis
          by (simp add: sp)
      qed
    qed
  qed
qed

lemma empty_axes_lines [simp]: "get_lines empty_axes = []"
  by (simp add: empty_axes_def)

lemma run_reader_error:
  "read_cube lib f1 = Inl m \<Longrightarrow>
     plot_bg_cube_model_comparison lib f1 name1 f2 name2 =
       \<lparr>raised = Some (LibraryError m), printed = [(''filename1'', f1), (''filename2'', f2)],
        fig = NoFigure\<rparr>"
  "read_cube lib f1 = Inr r1 \<Longrightarrow> read_cube lib f2 = Inl m \<Longrightarrow>
     plot_bg_cube_model_comparison lib f1 name1 f2 name2 =
       \<lparr>raised = Some (LibraryError m), printed = [(''filename1'', f1), (''filename2'', f2)],
        fig = NoFigure\<rparr>"
  by (simp_all add: plot_bg_cube_model_comparison_def)

lemma run_conversion_error:
  "read_cube lib f1 = Inr r1 \<Longrightarrow> read_cube lib f2 = Inr r2 \<Longrightarrow>
   normalization_step r1 r2 = Inl e \<Longrightarrow>
     plot_bg_cube_model_comparison lib f1 name1 f2 name2 =
       \<lparr>raised = Some e, printed = [(''filename1'', f1), (''filename2'', f2)], fig = NoFigure\<rparr>"
  by (simp add: plot_bg_cube_model_comparison_def)

lemma normalization_step_error:
  "normalization_step c1 c2 = Inl e \<Longrightarrow> e = UnitConversionError"
  by (auto simp: normalization_step_def quantity_to_def case_prod_beta split: if_splits)

text \<open>The figure before the spectral panels are drawn.\<close>

lemma run_panels:
  assumes "read_cube lib f1 = Inr r1" and "read_cube lib f2 = Inr r2"
    and "normalization_step r1 r2 = Inr (fin, b1, b2)"
  shows "\<exists>fig4.
      axes_at fig4 0 2 = empty_axes \<and> axes_at fig4 1 2 = empty_axes \<and> \<not> shown fig4
    \<and> length (grid fig4) = 2 \<and> length (grid fig4 ! 0) = 3 \<and> length (grid fig4 ! 1) = 3
    \<and> axes_at fig4 0 0 = image_panel lib b1 1 name1 empty_axes
    \<and> axes_at fig4 1 0 = image_panel lib b1 10 name1 empty_axes
    \<and> axes_at fig4 0 1 = image_panel lib b2 1 name2 empty_axes
    \<and> axes_at fig4 1 1 = image_panel lib b2 10 name2 empty_axes
    \<and> suptitle fig4 = group_info \<and> size_inches fig4 = Some (30, 15)
    \<and> plot_bg_cube_model_comparison lib f1 name1 f2 name2 =
       (let out = [(''filename1'', f1), (''filename2'', f2)];
            p1 = spectral_panel lib b1 b2 name1 name2 (0, 0) empty_axes;
            fig5 = set_axes fig4 0 2 (snd p1)
        in case exception_of (fst p1) of
             Some e \<Rightarrow> \<lparr>raised = Some e, printed = out, fig = figure_of fin fig5\<rparr>
           | None \<Rightarrow>
              (let p2 = spectral_panel lib b1 b2 name1 name2 (2, 2) empty_axes;
                   fig6 = set_axes fig5 1 2 (snd p2)
               in case exception_of (fst p2) of
                    Some e \<Rightarrow> \<lparr>raised = Some e, printed = out,
                                fig = figure_of (fin \<and> fst p1 = None) fig6\<rparr>
                  | None \<Rightarrow> \<lparr>raised = None, printed = out,
                              fig = figure_of (fin \<and> fst p1 = None \<and> fst p2 = None)
                                      (fig6\<lparr>shown := True\<rparr>)\<rparr>))"
proof -
  let ?fig0 = "(subplots 2 3)\<lparr>size_inches := Some (30, 15), suptitle := group_info\<rparr>"
  let ?fig1 = "set_axes ?fig0 0 0 (image_panel lib b1 1 name1 (axes_at ?fig0 0 0))"
  let ?fig2 = "set_axes ?fig1 1 0 (image_panel lib b1 10 name1 (axes_at ?fig1 1 0))"
  let ?fig3 = "set_axes ?fig2 0 1 (image_panel lib b2 1 name2 (axes_at ?fig2 0 1))"
  let ?fig4 = "set_axes ?fig3 1 1 (image_panel lib b2 10 name2 (axes_at ?fig3 1 1))"
  have a: "axes_at ?fig4 0 2 = empty_axes" "axes_at ?fig4 1 2 = empty_axes" "\<not> shown ?fig4"
    "length (grid ?fig4) = 2" "length (grid ?fig4 ! 0) = 3" "length (grid ?fig4 ! 1) = 3"
    "axes_at ?fig4 0 0 = image_panel lib b1 1 name1 empty_axes"
    "axes_at ?fig4 1 0 = image_panel lib b1 10 name1 empty_axes"
    "axes_at ?fig4 0 1 = image_panel lib b2 1 name2 empty_axes"
    "axes_at ?fig4 1 1 = image_panel lib b2 10 name2 empty_axes"
    "suptitle ?fig4 = group_info" "size_inches ?fig4 = Some (30, 15)"
    by (simp_all add: set_axes_def axes_at_def subplots_def)
  have b: "axes_at (set_axes ?fig4 0 2 ax) 1 2 = empty_axes" for ax
    by (simp add: set_axes_def axes_at_def subplots_def)
  show ?thesis
    apply (rule exI [of _ ?fig4])
    using assms a
    by (simp add: plot_bg_cube_model_comparison_def Let_def case_prod_beta b
        del: One_nat_def split: option.splits)
qed

lemma axes_at_set_axes:
  assumes "i < length (grid f)" and "j < length (grid f ! i)"
  shows "axes_at (set_axes f i j ax) i j = ax"
  using assms by (simp add: axes_at_def set_axes_def)

lemma axes_at_set_axes_other_row:
  assumes "i \<noteq> i'"
  shows "axes_at (set_axes f i j ax) i' j' = axes_at f i' j'"
  using assms by (simp add: axes_at_def set_axes_def)

lemma grid_set_axes [simp]:
  "length (grid (set_axes f i j ax)) = length (grid f)"
  "k < length (grid f) \<Longrightarrow> length (grid (set_axes f i j ax) ! k) = length (grid f ! k)"
  by (cases "k = i"; simp add: set_axes_def)+

lemma shown_set_axes [simp]: "shown (set_axes f i j ax) = shown f"
  by (simp add: set_axes_def)

lemma figure_of_shown:
  "figure_of b f = figure_of b' f' \<Longrightarrow> shown f = shown f'"
  by (auto simp: figure_of_def split: if_splits)

lemma run_raised:
  assumes "read_cube lib f1 = Inr r1" and "read_cube lib f2 = Inr r2"
    and "normalization_step r1 r2 = Inr (fin, b1, b2)"
  shows "raised (plot_bg_cube_model_comparison lib f1 name1 f2 name2) =
     (if spec_title (spectrum_at lib b1 (0, 0)) \<noteq> spec_title (spectrum_at lib b2 (0, 0))
      then Some (ValueError (s_error (spec_title (spectrum_at lib b1 (0, 0)))
                                     (spec_title (spectrum_at lib b2 (0, 0)))))
      else if points (spectrum_at lib b1 (0, 0)) = [] then Some IndexError
      else if spec_title (spectrum_at lib b1 (2, 2)) \<noteq> spec_title (spectrum_at lib b2 (2, 2))
      then Some (ValueError (s_error (spec_title (spectrum_at lib b1 (2, 2)))
                                     (spec_title (spectrum_at lib b2 (2, 2)))))
      else if points (spectrum_at lib b1 (2, 2)) = [] then Some IndexError
      else None)"
proof -
  obtain fig4 where r: "plot_bg_cube_model_comparison lib f1 name1 f2 name2 =
       (let out = [(''filename1'', f1), (''filename2'', f2)];
            p1 = spectral_panel lib b1 b2 name1 name2 (0, 0) empty_axes;
            fig5 = set_axes fig4 0 2 (snd p1)
        in case exception_of (fst p1) of
             Some e \<Rightarrow> \<lparr>raised = Some e, printed = out, fig = figure_of fin fig5\<rparr>
           | None \<Rightarrow>
              (let p2 = spectral_panel lib b1 b2 name1 name2 (2, 2) empty_axes;
                   fig6 = set_axes fig5 1 2 (snd p2)
               in case exception_of (fst p2) of
                    Some e \<Rightarrow> \<lparr>raised = Some e, printed = out,
                                fig = figure_of (fin \<and> fst p1 = None) fig6\<rparr>
                  | None \<Rightarrow> \<lparr>raised = None, printed = out,
                              fig = figure_of (fin \<and> fst p1 = None \<and> fst p2 = None)
                                      (fig6\<lparr>shown := True\<rparr>)\<rparr>))"
    using run_panels [OF assms] by blast
  show ?thesis
    unfolding r Let_def
    by (simp add: spectral_panel_exception)
qed

lemma run_first_mismatch:
  assumes "read_cube lib f1 = Inr r1" and "read_cube lib f2 = Inr r2"
    and "normalization_step r1 r2 = Inr (fin, b1, b2)"
    and "spec_title (spectrum_at lib b1 (0, 0)) \<noteq> spec_title (spectrum_at lib b2 (0, 0))"
  shows "\<exists>f. fig (plot_bg_cube_model_comparison lib f1 name1 f2 name2) = figure_of fin f
          \<and> \<not> shown f
          \<and> axes_at f 0 2 = plot_spectrum lib b2 (0, 0)
               (plot_spectrum lib b1 (0, 0) empty_axes Blue name1) Red name2
          \<and> axes_at f 1 2 = empty_axes"
proof -
  obtain fig4 where f4: "axes_at fig4 1 2 = empty_axes" "\<not> shown fig4"
      "length (grid fig4) = 2" "length (grid fig4 ! 0) = 3"
    and r: "plot_bg_cube_model_comparison lib f1 name1 f2 name2 =
       (let out = [(''filename1'', f1), (''filename2'', f2)];
            p1 = spectral_panel lib b1 b2 name1 name2 (0, 0) empty_axes;
            fig5 = set_axes fig4 0 2 (snd p1)
        in case exception_of (fst p1) of
             Some e \<Rightarrow> \<lparr>raised = Some e, printed = out, fig = figure_of fin fig5\<rparr>
           | None \<Rightarrow>
              (let p2 = spectral_panel lib b1 b2 name1 name2 (2, 2) empty_axes;
                   fig6 = set_axes fig5 1 2 (snd p2)
               in case exception_of (fst p2) of
                    Some e \<Rightarrow> \<lparr>raised = Some e, printed = out,
                                fig = figure_of (fin \<and> fst p1 = None) fig6\<rparr>
                  | None \<Rightarrow> \<lparr>raised = None, printed = out,
                              fig = figure_of (fin \<and> fst p1 = None \<and> fst p2 = None)
                                      (fig6\<lparr>shown := True\<rparr>)\<rparr>))"
    using run_panels [OF assms(1-3)] by blast
  let ?ax = "plot_spectrum lib b2 (0, 0) (plot_spectrum lib b1 (0, 0) empty_axes Blue name1) Red name2"
  have "fig (plot_bg_cube_model_comparison lib f1 name1 f2 name2)
      = figure_of fin (set_axes fig4 0 2 ?ax)"
    unfolding r Let_def using assms(4) by (simp add: spectral_panel_mismatch)
  moreover have "axes_at (set_axes fig4 0 2 ?ax) 0 2 = ?ax"
    using f4 by (simp add: axes_at_set_axes)
  moreover have "axes_at (set_axes fig4 0 2 ?ax) 1 2 = empty_axes"
    using f4 by (simp add: axes_at_set_axes_other_row)
  ultimately show ?thesis
    using f4(2) by (intro exI [of _ "set_axes fig4 0 2 ?ax"]) simp
qed

lemma run_second_mismatch:
  assumes "read_cube lib f1 = Inr r1" and "read_cube lib f2 = Inr r2"
    and "normalization_step r1 r2 = Inr (fin, b1, b2)"
    and "spec_title (spectrum_at lib b1 (0, 0)) = spec_title (spectrum_at lib b2 (0, 0))"
    and "points (spectrum_at lib b1 (0, 0)) \<noteq> []"
    and "spec_title (spectrum_at lib b1 (2, 2)) \<noteq> spec_title (spectrum_at lib b2 (2, 2))"
  shows "\<exists>fin' f. fig (plot_bg_cube_model_comparison lib f1 name1 f2 name2) = figure_of fin' f
          \<and> \<not> shown f
          \<and> axes_at f 0 2 = snd (spectral_panel lib b1 b2 name1 name2 (0, 0) empty_axes)
          \<and> axes_at f 1 2 = plot_spectrum lib b2 (2, 2)
               (plot_spectrum lib b1 (2, 2) empty_axes Blue name1) Red name2"
proof -
  obtain fig4 where f4: "\<not> shown fig4"
      "length (grid fig4) = 2" "length (grid fig4 ! 0) = 3" "length (grid fig4 ! 1) = 3"
    and r: "plot_bg_cube_model_comparison lib f1 name1 f2 name2 =
       (let out = [(''filename1'', f1), (''filename2'', f2)];
            p1 = spectral_panel lib b1 b2 name1 name2 (0, 0) empty_axes;
            fig5 = set_axes fig4 0 2 (snd p1)
        in case exception_of (fst p1) of
             Some e \<Rightarrow> \<lparr>raised = Some e, printed = out, fig = figure_of fin fig5\<rparr>
           | None \<Rightarrow>
              (let p2 = spectral_panel lib b1 b2 name1 name2 (2, 2) empty_axes;
                   fig6 = set_axes fig5 1 2 (snd p2)
               in case exception_of (fst p2) of
                    Some e \<Rightarrow> \<lparr>raised = Some e, printed = out,
                                fig = figure_of (fin \<and> fst p1 = None) fig6\<rparr>
                  | None \<Rightarrow> \<lparr>raised = None, printed = out,
                              fig = figure_of (fin \<and> fst p1 = None \<and> fst p2 = None)
                                      (fig6\<lparr>shown := True\<rparr>)\<rparr>))"
    using run_panels [OF assms(1-3)] by blast
  let ?p1 = "spectral_panel lib b1 b2 name1 name2 (0, 0) empty_axes"
  let ?ax = "plot_spectrum lib b2 (2, 2) (plot_spectrum lib b1 (2, 2) empty_axes Blue name1) Red name2"
  let ?f = "set_axes (set_axes fig4 0 2 (snd ?p1)) 1 2 ?ax"
  have e1: "exception_of (fst ?p1) = None"
    using assms(4,5) by (simp add: spectral_panel_exception)
  have "fig (plot_bg_cube_model_comparison lib f1 name1 f2 name2)
      = figure_of (fin \<and> fst ?p1 = None) ?f"
    unfolding r Let_def using assms(6) by (simp add: e1 spectral_panel_mismatch)
  moreover have "axes_at ?f 1 2 = ?ax"
    using f4 by (intro axes_at_set_axes) simp_all
  moreover have "axes_at ?f 0 2 = snd ?p1"
    using f4 by (simp add: axes_at_set_axes axes_at_set_axes_other_row)
  ultimately show ?thesis
    using f4(1) by (intro exI [of _ "fin \<and> fst ?p1 = None"] exI [of _ ?f]) simp
qed

lemma run_no_ValueError:
  assumes "read_cube lib f1 = Inr r1" and "read_cube lib f2 = Inr r2"
    and "normalization_step r1 r2 = Inr (fin, b1, b2)"
    and "spec_title (spectrum_at lib b1 (0, 0)) = spec_title (spectrum_at lib b2 (0, 0))"
    and "spec_title (spectrum_at lib b1 (2, 2)) = spec_title (spectrum_at lib b2 (2, 2))"
  shows "raised (plot_bg_cube_model_comparison lib f1 name1 f2 name2) \<noteq> Some (ValueError m)"
  using assms(4,5) by (simp add: run_raised [OF assms(1-3)])

lemma run_ValueError_origin:
  assumes "raised (plot_bg_cube_model_comparison lib f1 name1 f2 name2) = Some (ValueError m)"
  shows "\<exists>r1 r2 fin b1 b2 position.
      read_cube lib f1 = Inr r1 \<and> read_cube lib f2 = Inr r2
    \<and> normalization_step r1 r2 = Inr (fin, b1, b2)
    \<and> (position = (0, 0) \<or> position = (2, 2))
    \<and> spec_title (spectrum_at lib b1 position) \<noteq> spec_title (spectrum_at lib b2 position)
    \<and> m = s_error (spec_title (spectrum_at lib b1 position))
                   (spec_title (spectrum_at lib b2 position))"
proof (cases "read_cube lib f1")
  case (Inl a)
  with assms show ?thesis by (simp add: run_reader_error)
next
  case r1: (Inr r1)
  show ?thesis
  proof (cases "read_cube lib f2")
    case (Inl a)
    with assms r1 show ?thesis by (simp add: run_reader_error)
  next
    case r2: (Inr r2)
    show ?thesis
    proof (cases "normalization_step r1 r2")
      case (Inl e)
      with assms r1 r2 normalization_step_error [of r1 r2 e] show ?thesis
        by (simp add: run_conversion_error)
    next
      case (Inr t)
      obtain fin b1 b2 where t: "t = (fin, b1, b2)" by (cases t)
      note rr = run_raised [OF r1 r2 Inr [unfolded t], of name1 name2]
      from assms have "(spec_title (spectrum_at lib b1 (0, 0)) \<noteq> spec_title (spectrum_at lib b2 (0, 0))
            \<and> m = s_error (spec_title (spectrum_at lib b1 (0, 0))) (spec_title (spectrum_at lib b2 (0, 0))))
          \<or> (spec_title (spectrum_at lib b1 (2, 2)) \<noteq> spec_title (spectrum_at lib b2 (2, 2))
            \<and> m = s_error (spec_title (spectrum_at lib b1 (2, 2))) (spec_title (spectrum_at lib b2 (2, 2))))"
        unfolding rr by (auto split: if_splits)
      with r1 r2 Inr t show ?thesis by blast
    qed
  qed
qed

lemma normalization_step_normalize:
  "normalization_step c1 c2 = Inr (True, m1, m2) \<longleftrightarrow> normalize c1 c2 = Inr (m1, m2)"
  by (cases "rescale c1 c2")
    (auto simp: normalization_step_def after_rescale_def normalize_def quantity_to_def
      split: if_splits)

lemma normalization_step_raises:
  "normalization_step c1 c2 = Inl e \<longleftrightarrow>
     e = UnitConversionError \<and> unit_bases (volume_unit c1) \<noteq> unit_bases (volume_unit c2)"
proof -
  have u: "data_unit (snd (after_rescale c1 c2)) =
      unit_mul (data_unit c1) (unit_div (unit_of (integral c2)) (unit_of (integral c1)))"
    by (cases "rescale c1 c2") (auto simp: after_rescale_def dest: rescaled_unit(1))
  have "unit_bases (data_unit c2) = unit_bases (data_unit (snd (after_rescale c1 c2)))
      \<longleftrightarrow> unit_bases (volume_unit c1) = unit_bases (volume_unit c2)"
    unfolding u unit_of_integral
    by (auto simp: unit_mul_def unit_div_def split: prod.splits)
  then show ?thesis
    by (auto simp: normalization_step_def quantity_to_def case_prod_beta)
qed

lemma normalization_step_zero:
  assumes "magnitude (integral c1) = 0"
    and "unit_bases (volume_unit c1) = unit_bases (volume_unit c2)"
  shows "\<exists>m1 m2. normalization_step c1 c2 = Inr (False, m1, m2)"
proof -
  have "\<not> (\<exists>e. normalization_step c1 c2 = Inl e)"
    using assms(2) by (simp add: normalization_step_raises)
  then obtain t where t: "normalization_step c1 c2 = Inr t"
    by (cases "normalization_step c1 c2") auto
  have "fst (after_rescale c1 c2) = False"
    using rescale_zero [OF assms(1), of c2] by (simp add: after_rescale_def)
  then have "fst t = False"
    using t
    by (cases "quantity_to (data c2) (data_unit c2) (data_unit (snd (after_rescale c1 c2)))")
      (auto simp: normalization_step_def case_prod_beta)
  then show ?thesis
    using t by (cases t) auto
qed

subsection \<open>The error of the two spectral panels\<close>

lemma example_steps:
  "\<exists>b1 b2. normalization_step flat_cube1 two_bin_cube = Inr (True, b1, b2)
      \<and> data b1 = [[[2, 2, 2]]] \<and> length (data b2) = 2"
  "\<exists>b1 b2. normalization_step flat_zero_cube two_bin_cube = Inr (False, b1, b2)
      \<and> data b1 = [[[0, 0, 0]]] \<and> length (data b2) = 2"
  "\<exists>b1 b2. normalization_step flat_zero_cube flat_cube2 = Inr (False, b1, b2)
      \<and> data b1 = [[[0, 0, 0]]] \<and> data b2 = [[[2, 2, 2]]]"
  "\<exists>b1 b2. normalization_step flat_cube1 flat_cube2 = Inr (True, b1, b2)
      \<and> data b1 = [[[2, 2, 2]]] \<and> data b2 = [[[2, 2, 2]]]"
  by (simp_all add: normalization_step_def after_rescale_def rescale_def quantity_div_def
      quantity_to_def integral_def weighted_sum_def unit_mul_def unit_div_def map3_def
      flat_cube1_def flat_cube2_def two_bin_cube_def flat_zero_cube_def rate_unit_def
      bin_unit_def Let_def)

lemma example_titles:
  "spec_title (spectrum_at example_library c coord)
     = (if length (data c) = 1 then ''det bin: 3x3'' else ''det bin: 5x5'')"
  "spec_title (spectrum_at zero_library c coord)
     = (if length (data c) = 1 then ''det bin: 3x3'' else ''det bin: 5x5'')"
  "spec_title (spectrum_at offaxis_library c coord)
     = (if coord = (0, 0) \<or> length (data c) = 1 then ''det bin: 3x3'' else ''det bin: 5x5'')"
  "points (spectrum_at example_library c coord) = zip [1, 4, 16] (concat (concat (data c)))"
  "points (spectrum_at zero_library c coord) = zip [1, 4, 16] (concat (concat (data c)))"
  "points (spectrum_at offaxis_library c coord) = zip [1, 4, 16] (concat (concat (data c)))"
  by (simp_all add: example_library_def zero_library_def offaxis_library_def)

lemma example_reads:
  "read_cube example_library ''true.fits.gz'' = Inr flat_cube1"
  "read_cube example_library ''reco.fits.gz'' = Inr flat_cube2"
  "read_cube example_library ''coarse.fits.gz'' = Inr two_bin_cube"
  "read_cube offaxis_library ''true.fits.gz'' = Inr flat_cube1"
  "read_cube offaxis_library ''coarse.fits.gz'' = Inr two_bin_cube"
  "read_cube zero_library ''zero.fits.gz'' = Inr flat_zero_cube"
  "read_cube zero_library ''reco.fits.gz'' = Inr flat_cube2"
  "read_cube zero_library ''coarse.fits.gz'' = Inr two_bin_cube"
  by (simp_all add: example_library_def zero_library_def offaxis_library_def)

text \<open>
  C2: in each spectral panel a ValueError is raised if and only if the two generated
  titles differ. Its message is the text of lines 106 to 107 and contains both titles,
  and the panel is then as the two \<^verbatim>\<open>plot_spectrum\<close> calls left it: no overlay
  is drawn. For a run whose cubes were read and whose unit conversion succeeded,
  whether the first cube's integral is 0 or not: titles that differ in the first panel
  end the run with this error, the second panel empty and the figure not shown; titles
  that are equal in the first panel (whose first curve has a sample point) and differ
  in the second end the run with the second panel's error, the first panel complete
  and the figure not shown; titles that are equal in both panels give no ValueError.
  A run that ends with a ValueError ends with the error of one of the two panels.
\<close>

theorem det_binning_value_error:
  "((\<exists>m. fst (spectral_panel lib c1 c2 name1 name2 coord ax) = Some (ValueError m))
      \<longleftrightarrow> spec_title (spectrum_at lib c1 coord) \<noteq> spec_title (spectrum_at lib c2 coord))
   \<and> (spec_title (spectrum_at lib c1 coord) \<noteq> spec_title (spectrum_at lib c2 coord) \<longrightarrow>
        spectral_panel lib c1 c2 name1 name2 coord ax =
          (Some (ValueError (s_error (spec_title (spectrum_at lib c1 coord))
                                     (spec_title (spectrum_at lib c2 coord)))),
           plot_spectrum lib c2 coord (plot_spectrum lib c1 coord ax Blue name1) Red name2))
   \<and> sublist spec_title1 (s_error spec_title1 spec_title2)
   \<and> sublist spec_title2 (s_error spec_title1 spec_title2)
   \<and> (\<forall>m. raised (plot_bg_cube_model_comparison lib input_file1 name1 input_file2 name2)
             = Some (ValueError m) \<longrightarrow>
          (\<exists>r1 r2 fin b1 b2 position.
              read_cube lib input_file1 = Inr r1 \<and> read_cube lib input_file2 = Inr r2
            \<and> normalization_step r1 r2 = Inr (fin, b1, b2)
            \<and> (position = (0, 0) \<or> position = (2, 2))
            \<and> spec_title (spectrum_at lib b1 position) \<noteq> spec_title (spectrum_at lib b2 position)
            \<and> m = s_error (spec_title (spectrum_at lib b1 position))
                           (spec_title (spectrum_at lib b2 position))))
   \<and> (read_cube lib input_file1 = Inr r1 \<and> read_cube lib input_file2 = Inr r2
        \<and> normalization_step r1 r2 = Inr (fin, b1, b2) \<longrightarrow>
        (spec_title (spectrum_at lib b1 (0, 0)) \<noteq> spec_title (spectrum_at lib b2 (0, 0)) \<longrightarrow>
            raised (plot_bg_cube_model_comparison lib input_file1 name1 input_file2 name2) =
              Some (ValueError (s_error (spec_title (spectrum_at lib b1 (0, 0)))
                                        (spec_title (spectrum_at lib b2 (0, 0)))))
          \<and> (\<exists>f. fig (plot_bg_cube_model_comparison lib input_file1 name1 input_file2 name2)
                    = figure_of fin f
                 \<and> \<not> shown f
                 \<and> axes_at f 0 2 = plot_spectrum lib b2 (0, 0)
                      (plot_spectrum lib b1 (0, 0) empty_axes Blue name1) Red name2
                 \<and> axes_at f 1 2 = empty_axes))
      \<and> (spec_title (spectrum_at lib b1 (0, 0)) = spec_title (spectrum_at lib b2 (0, 0))
          \<and> points (spectrum_at lib b1 (0, 0)) \<noteq> []
          \<and> spec_title (spectrum_at lib b1 (2, 2)) \<noteq> spec_title (spectrum_at lib b2 (2, 2)) \<longrightarrow>
            raised (plot_bg_cube_model_comparison lib input_file1 name1 input_file2 name2) =
              Some (ValueError (s_error (spec_title (spectrum_at lib b1 (2, 2)))
                                        (spec_title (spectrum_at lib b2 (2, 2)))))
          \<and> (\<exists>fin' f. fig (plot_bg_cube_model_comparison lib input_file1 name1 input_file2 name2)
                    = figure_of fin' f
                 \<and> \<not> shown f
                 \<and> axes_at f 0 2 = snd (spectral_panel lib b1 b2 name1 name2 (0, 0) empty_axes)
                 \<and> axes_at f 1 2 = plot_spectrum lib b2 (2, 2)
                      (plot_spectrum lib b1 (2, 2) empty_axes Blue name1) Red name2))
      \<and> (spec_title (spectrum_at lib b1 (0, 0)) = spec_title (spectrum_at lib b2 (0, 0))
          \<and> spec_title (spectrum_at lib b1 (2, 2)) = spec_title (spectrum_at lib b2 (2, 2)) \<longrightarrow>
            (\<forall>m. raised (plot_bg_cube_model_comparison lib input_file1 name1 input_file2 name2)
                   \<noteq> Some (ValueError m))))"
proof (intro conjI allI impI)
  show "(\<exists>m. fst (spectral_panel lib c1 c2 name1 name2 coord ax) = Some (ValueError m))
      \<longleftrightarrow> spec_title (spectrum_at lib c1 coord) \<noteq> spec_title (spectrum_at lib c2 coord)"
    by (rule spectral_panel_ValueError)
  show "sublist spec_title1 (s_error spec_title1 spec_title2)"
    by (rule s_error_contains)
  show "sublist spec_title2 (s_error spec_title1 spec_title2)"
    by (rule s_error_contains)
next
  assume "spec_title (spectrum_at lib c1 coord) \<noteq> spec_title (spectrum_at lib c2 coord)"
  then show "spectral_panel lib c1 c2 name1 name2 coord ax =
          (Some (ValueError (s_error (spec_title (spectrum_at lib c1 coord))
                                     (spec_title (spectrum_at lib c2 coord)))),
           plot_spectrum lib c2 coord (plot_spectrum lib c1 coord ax Blue name1) Red name2)"
    by (rule spectral_panel_mismatch)
next
  fix m
  assume "raised (plot_bg_cube_model_comparison lib input_file1 name1 input_file2 name2)
             = Some (ValueError m)"
  then show "\<exists>r1 r2 fin b1 b2 position.
              read_cube lib input_file1 = Inr r1 \<and> read_cube lib input_file2 = Inr r2
            \<and> normalization_step r1 r2 = Inr (fin, b1, b2)
            \<and> (position = (0, 0) \<or> position = (2, 2))
            \<and> spec_title (spectrum_at lib b1 position) \<noteq> spec_title (spectrum_at lib b2 position)
            \<and> m = s_error (spec_title (spectrum_at lib b1 position))
                           (spec_title (spectrum_at lib b2 position))"
    by (rule run_ValueError_origin)
next
  assume a: "read_cube lib input_file1 = Inr r1 \<and> read_cube lib input_file2 = Inr r2
        \<and> normalization_step r1 r2 = Inr (fin, b1, b2)"
    and t: "spec_title (spectrum_at lib b1 (0, 0)) \<noteq> spec_title (spectrum_at lib b2 (0, 0))"
  from a have r: "read_cube lib input_file1 = Inr r1" "read_cube lib input_file2 = Inr r2"
    "normalization_step r1 r2 = Inr (fin, b1, b2)" by simp_all
  show "raised (plot_bg_cube_model_comparison lib input_file1 name1 input_file2 name2) =
              Some (ValueError (s_error (spec_title (spectrum_at lib b1 (0, 0)))
                                        (spec_title (spectrum_at lib b2 (0, 0)))))"
    using t by (simp add: run_raised [OF r])
  show "\<exists>f. fig (plot_bg_cube_model_comparison lib input_file1 name1 input_file2 name2)
                    = figure_of fin f
                 \<and> \<not> shown f
                 \<and> axes_at f 0 2 = plot_spectrum lib b2 (0, 0)
                      (plot_spectrum lib b1 (0, 0) empty_axes Blue name1) Red name2
                 \<and> axes_at f 1 2 = empty_axes"
    using r t by (rule run_first_mismatch)
next
  assume a: "read_cube lib input_file1 = Inr r1 \<and> read_cube lib input_file2 = Inr r2
        \<and> normalization_step r1 r2 = Inr (fin, b1, b2)"
    and t: "spec_title (spectrum_at lib b1 (0, 0)) = spec_title (spectrum_at lib b2 (0, 0))
          \<and> points (spectrum_at lib b1 (0, 0)) \<noteq> []
          \<and> spec_title (spectrum_at lib b1 (2, 2)) \<noteq> spec_title (spectrum_at lib b2 (2, 2))"
  from a have r: "read_cube lib input_file1 = Inr r1" "read_cube lib input_file2 = Inr r2"
    "normalization_step r1 r2 = Inr (fin, b1, b2)" by simp_all
  from t have t': "spec_title (spectrum_at lib b1 (0, 0)) = spec_title (spectrum_at lib b2 (0, 0))"
    "points (spectrum_at lib b1 (0, 0)) \<noteq> []"
    "spec_title (spectrum_at lib b1 (2, 2)) \<noteq> spec_title (spectrum_at lib b2 (2, 2))"
    by simp_all
  show "raised (plot_bg_cube_model_comparison lib input_file1 name1 input_file2 name2) =
              Some (ValueError (s_error (spec_title (spectrum_at lib b1 (2, 2)))
                                        (spec_title (spectrum_at lib b2 (2, 2)))))"
    using t' by (simp add: run_raised [OF r])
  show "\<exists>fin' f. fig (plot_bg_cube_model_comparison lib input_file1 name1 input_file2 name2)
                    = figure_of fin' f
                 \<and> \<not> shown f
                 \<and> axes_at f 0 2 = snd (spectral_panel lib b1 b2 name1 name2 (0, 0) empty_axes)
                 \<and> axes_at f 1 2 = plot_spectrum lib b2 (2, 2)
                      (plot_spectrum lib b1 (2, 2) empty_axes Blue name1) Red name2"
    using r t' by (rule run_second_mismatch)
next
  fix m
  assume a: "read_cube lib input_file1 = Inr r1 \<and> read_cube lib input_file2 = Inr r2
        \<and> normalization_step r1 r2 = Inr (fin, b1, b2)"
    and t: "spec_title (spectrum_at lib b1 (0, 0)) = spec_title (spectrum_at lib b2 (0, 0))
          \<and> spec_title (spectrum_at lib b1 (2, 2)) = spec_title (spectrum_at lib b2 (2, 2))"
  then show "raised (plot_bg_cube_model_comparison lib input_file1 name1 input_file2 name2)
                   \<noteq> Some (ValueError m)"
    using run_no_ValueError [of lib input_file1 r1 input_file2 r2 fin b1 b2 name1 name2 m]
    by blast
qed

theorem det_binning_value_error_witness:
  "raised (plot_bg_cube_model_comparison example_library ''true.fits.gz'' ''true''
      ''coarse.fits.gz'' ''reco'')
     = Some (ValueError (s_error ''det bin: 3x3'' ''det bin: 5x5''))
   \<and> raised (plot_bg_cube_model_comparison offaxis_library ''true.fits.gz'' ''true''
      ''coarse.fits.gz'' ''reco'')
     = Some (ValueError (s_error ''det bin: 3x3'' ''det bin: 5x5''))
   \<and> raised (plot_bg_cube_model_comparison zero_library ''zero.fits.gz'' ''true''
      ''coarse.fits.gz'' ''reco'')
     = Some (ValueError (s_error ''det bin: 3x3'' ''det bin: 5x5''))
   \<and> (\<forall>m. raised (plot_bg_cube_model_comparison example_library ''true.fits.gz'' ''true''
      ''reco.fits.gz'' ''reco'') \<noteq> Some (ValueError m))
   \<and> sublist ''det bin: 3x3'' (s_error ''det bin: 3x3'' ''det bin: 5x5'')
   \<and> sublist ''det bin: 5x5'' (s_error ''det bin: 3x3'' ''det bin: 5x5'')
   \<and> (\<exists>f. fig (plot_bg_cube_model_comparison example_library ''true.fits.gz'' ''true''
              ''coarse.fits.gz'' ''reco'') = Finite f
          \<and> \<not> shown f \<and> length (get_lines (axes_at f 0 2)) = 2
          \<and> axes_at f 1 2 = empty_axes)"
proof -
  obtain b1 b2 where n: "normalization_step flat_cube1 two_bin_cube = Inr (True, b1, b2)"
    and l: "data b1 = [[[2, 2, 2]]]" "length (data b2) = 2"
    using example_steps(1) by blast
  obtain z1 z2 where nz: "normalization_step flat_zero_cube two_bin_cube = Inr (False, z1, z2)"
    and lz: "data z1 = [[[0, 0, 0]]]" "length (data z2) = 2"
    using example_steps(2) by blast
  obtain e1 e2 where ne: "normalization_step flat_cube1 flat_cube2 = Inr (True, e1, e2)"
    and le: "data e1 = [[[2, 2, 2]]]" "data e2 = [[[2, 2, 2]]]"
    using example_steps(4) by blast
  note t = example_titles l lz le
  have pa: "read_cube example_library ''true.fits.gz'' = Inr flat_cube1
      \<and> read_cube example_library ''coarse.fits.gz'' = Inr two_bin_cube
      \<and> normalization_step flat_cube1 two_bin_cube = Inr (True, b1, b2)"
    using n by (simp add: example_reads)
  have ta: "spec_title (spectrum_at example_library b1 (0, 0))
      \<noteq> spec_title (spectrum_at example_library b2 (0, 0))"
    by (simp add: t)
  note first = det_binning_value_error [of example_library _ _ "''true''" "''reco''" _ _
        "''det bin: 3x3''" "''det bin: 5x5''" "''true.fits.gz''" "''coarse.fits.gz''"
        flat_cube1 two_bin_cube True b1 b2]
  note first_run = first [THEN conjunct2, THEN conjunct2, THEN conjunct2, THEN conjunct2,
      THEN conjunct2, THEN mp, OF pa]
  have a: "raised (plot_bg_cube_model_comparison example_library ''true.fits.gz'' ''true''
      ''coarse.fits.gz'' ''reco'')
     = Some (ValueError (s_error ''det bin: 3x3'' ''det bin: 5x5''))"
    using first_run [THEN conjunct1, THEN mp, OF ta, THEN conjunct1] by (simp add: t)
  have pb: "read_cube offaxis_library ''true.fits.gz'' = Inr flat_cube1
      \<and> read_cube offaxis_library ''coarse.fits.gz'' = Inr two_bin_cube
      \<and> normalization_step flat_cube1 two_bin_cube = Inr (True, b1, b2)"
    using n by (simp add: example_reads)
  have tb: "spec_title (spectrum_at offaxis_library b1 (0, 0))
        = spec_title (spectrum_at offaxis_library b2 (0, 0))
      \<and> points (spectrum_at offaxis_library b1 (0, 0)) \<noteq> []
      \<and> spec_title (spectrum_at offaxis_library b1 (2, 2))
        \<noteq> spec_title (spectrum_at offaxis_library b2 (2, 2))"
    by (simp add: t)
  note second = det_binning_value_error [of offaxis_library _ _ "''true''" "''reco''" _ _
        "''det bin: 3x3''" "''det bin: 5x5''" "''true.fits.gz''" "''coarse.fits.gz''"
        flat_cube1 two_bin_cube True b1 b2]
  note second_run = second [THEN conjunct2, THEN conjunct2, THEN conjunct2, THEN conjunct2,
      THEN conjunct2, THEN mp, OF pb]
  have b: "raised (plot_bg_cube_model_comparison offaxis_library ''true.fits.gz'' ''true''
      ''coarse.fits.gz'' ''reco'')
     = Some (ValueError (s_error ''det bin: 3x3'' ''det bin: 5x5''))"
    using second_run [THEN conjunct2, THEN conjunct1, THEN mp, OF tb, THEN conjunct1]
    by (simp add: t)
  have pc: "read_cube zero_library ''zero.fits.gz'' = Inr flat_zero_cube
      \<and> read_cube zero_library ''coarse.fits.gz'' = Inr two_bin_cube
      \<and> normalization_step flat_zero_cube two_bin_cube = Inr (False, z1, z2)"
    using nz by (simp add: example_reads)
  have tc: "spec_title (spectrum_at zero_library z1 (0, 0))
      \<noteq> spec_title (spectrum_at zero_library z2 (0, 0))"
    by (simp add: t)
  note zero = det_binning_value_error [of zero_library _ _ "''true''" "''reco''" _ _
        "''det bin: 3x3''" "''det bin: 5x5''" "''zero.fits.gz''" "''coarse.fits.gz''"
        flat_zero_cube two_bin_cube False z1 z2]
  note zero_run = zero [THEN conjunct2, THEN conjunct2, THEN conjunct2, THEN conjunct2,
      THEN conjunct2, THEN mp, OF pc]
  have c: "raised (plot_bg_cube_model_comparison zero_library ''zero.fits.gz'' ''true''
      ''coarse.fits.gz'' ''reco'')
     = Some (ValueError (s_error ''det bin: 3x3'' ''det bin: 5x5''))"
    using zero_run [THEN conjunct1, THEN mp, OF tc, THEN conjunct1] by (simp add: t)
  have pd: "read_cube example_library ''true.fits.gz'' = Inr flat_cube1
      \<and> read_cube example_library ''reco.fits.gz'' = Inr flat_cube2
      \<and> normalization_step flat_cube1 flat_cube2 = Inr (True, e1, e2)"
    using ne by (simp add: example_reads)
  have td: "spec_title (spectrum_at example_library e1 (0, 0))
        = spec_title (spectrum_at example_library e2 (0, 0))
      \<and> spec_title (spectrum_at example_library e1 (2, 2))
        = spec_title (spectrum_at example_library e2 (2, 2))"
    by (simp add: t)
  note equal = det_binning_value_error [of example_library _ _ "''true''" "''reco''" _ _
        "''det bin: 3x3''" "''det bin: 5x5''" "''true.fits.gz''" "''reco.fits.gz''"
        flat_cube1 flat_cube2 True e1 e2]
  note equal_run = equal [THEN conjunct2, THEN conjunct2, THEN conjunct2, THEN conjunct2,
      THEN conjunct2, THEN mp, OF pd]
  note d = equal_run [THEN conjunct2, THEN conjunct2, THEN mp, OF td]
  note contains = first [THEN conjunct2, THEN conjunct2, THEN conjunct1]
    first [THEN conjunct2, THEN conjunct2, THEN conjunct2, THEN conjunct1]
  obtain f where f: "fig (plot_bg_cube_model_comparison example_library ''true.fits.gz''
        ''true'' ''coarse.fits.gz'' ''reco'') = figure_of True f" "\<not> shown f"
      "axes_at f 0 2 = plot_spectrum example_library b2 (0, 0)
         (plot_spectrum example_library b1 (0, 0) empty_axes Blue ''true'') Red ''reco''"
      "axes_at f 1 2 = empty_axes"
    using first_run [THEN conjunct1, THEN mp, OF ta, THEN conjunct2] by blast
  have e: "\<exists>f. fig (plot_bg_cube_model_comparison example_library ''true.fits.gz'' ''true''
              ''coarse.fits.gz'' ''reco'') = Finite f
          \<and> \<not> shown f \<and> length (get_lines (axes_at f 0 2)) = 2
          \<and> axes_at f 1 2 = empty_axes"
    using f by (intro exI [of _ f]) (simp add: figure_of_def plot_spectrum_def Let_def)
  show ?thesis
    using a b c d contains e by (intro conjI)
qed

subsection \<open>Runs that end without an exception\<close>

lemma axes_at_set_axes_other_column:
  assumes "j \<noteq> j'"
  shows "axes_at (set_axes f i j ax) i' j' = axes_at f i' j'"
  using assms
  by (cases "i = i'"; cases "i < length (grid f)")
    (simp_all add: axes_at_def set_axes_def list_update_beyond)

lemma set_axes_fields [simp]:
  "suptitle (set_axes f i j ax) = suptitle f"
  "size_inches (set_axes f i j ax) = size_inches f"
  by (simp_all add: set_axes_def)

lemma run_printed:
  "printed (plot_bg_cube_model_comparison lib f1 name1 f2 name2)
     = [(''filename1'', f1), (''filename2'', f2)]"
  by (simp add: plot_bg_cube_model_comparison_def Let_def case_prod_beta
      split: sum.splits option.splits)

lemma run_completes:
  assumes "read_cube lib f1 = Inr r1" and "read_cube lib f2 = Inr r2"
    and "normalization_step r1 r2 = Inr (fin, b1, b2)"
    and "spec_title (spectrum_at lib b1 (0, 0)) = spec_title (spectrum_at lib b2 (0, 0))"
    and "points (spectrum_at lib b1 (0, 0)) \<noteq> []"
    and "spec_title (spectrum_at lib b1 (2, 2)) = spec_title (spectrum_at lib b2 (2, 2))"
    and "points (spectrum_at lib b1 (2, 2)) \<noteq> []"
  shows "\<exists>f. fig (plot_bg_cube_model_comparison lib f1 name1 f2 name2) =
            figure_of (fin \<and> fst (spectral_panel lib b1 b2 name1 name2 (0, 0) empty_axes) = None
                           \<and> fst (spectral_panel lib b1 b2 name1 name2 (2, 2) empty_axes) = None) f
          \<and> shown f \<and> suptitle f = group_info \<and> size_inches f = Some (30, 15)
          \<and> axes_at f 0 0 = image_panel lib b1 1 name1 empty_axes
          \<and> axes_at f 1 0 = image_panel lib b1 10 name1 empty_axes
          \<and> axes_at f 0 1 = image_panel lib b2 1 name2 empty_axes
          \<and> axes_at f 1 1 = image_panel lib b2 10 name2 empty_axes
          \<and> axes_at f 0 2 = snd (spectral_panel lib b1 b2 name1 name2 (0, 0) empty_axes)
          \<and> axes_at f 1 2 = snd (spectral_panel lib b1 b2 name1 name2 (2, 2) empty_axes)"
proof -
  obtain fig4 where f4:
      "length (grid fig4) = 2" "length (grid fig4 ! 0) = 3" "length (grid fig4 ! 1) = 3"
      "axes_at fig4 0 0 = image_panel lib b1 1 name1 empty_axes"
      "axes_at fig4 1 0 = image_panel lib b1 10 name1 empty_axes"
      "axes_at fig4 0 1 = image_panel lib b2 1 name2 empty_axes"
      "axes_at fig4 1 1 = image_panel lib b2 10 name2 empty_axes"
      "suptitle fig4 = group_info" "size_inches fig4 = Some (30, 15)"
    and r: "plot_bg_cube_model_comparison lib f1 name1 f2 name2 =
       (let out = [(''filename1'', f1), (''filename2'', f2)];
            p1 = spectral_panel lib b1 b2 name1 name2 (0, 0) empty_axes;
            fig5 = set_axes fig4 0 2 (snd p1)
        in case exception_of (fst p1) of
             Some e \<Rightarrow> \<lparr>raised = Some e, printed = out, fig = figure_of fin fig5\<rparr>
           | None \<Rightarrow>
              (let p2 = spectral_panel lib b1 b2 name1 name2 (2, 2) empty_axes;
                   fig6 = set_axes fig5 1 2 (snd p2)
               in case exception_of (fst p2) of
                    Some e \<Rightarrow> \<lparr>raised = Some e, printed = out,
                                fig = figure_of (fin \<and> fst p1 = None) fig6\<rparr>
                  | None \<Rightarrow> \<lparr>raised = None, printed = out,
                              fig = figure_of (fin \<and> fst p1 = None \<and> fst p2 = None)
                                      (fig6\<lparr>shown := True\<rparr>)\<rparr>))"
    using run_panels [OF assms(1-3)] by blast
  let ?p1 = "spectral_panel lib b1 b2 name1 name2 (0, 0) empty_axes"
  let ?p2 = "spectral_panel lib b1 b2 name1 name2 (2, 2) empty_axes"
  let ?f6 = "set_axes (set_axes fig4 0 2 (snd ?p1)) 1 2 (snd ?p2)"
  have e: "exception_of (fst ?p1) = None" "exception_of (fst ?p2) = None"
    using assms(4-7) by (simp_all add: spectral_panel_exception)
  have g: "axes_at (f\<lparr>shown := True\<rparr>) i j = axes_at f i j" for f i j
    by (simp add: axes_at_def)
  have "fig (plot_bg_cube_model_comparison lib f1 name1 f2 name2) =
      figure_of (fin \<and> fst ?p1 = None \<and> fst ?p2 = None) (?f6\<lparr>shown := True\<rparr>)"
    unfolding r Let_def by (simp add: e)
  moreover have "axes_at ?f6 1 2 = snd ?p2"
    using f4 by (intro axes_at_set_axes) simp_all
  moreover have "axes_at ?f6 0 2 = snd ?p1"
    using f4 by (simp add: axes_at_set_axes axes_at_set_axes_other_row)
  moreover have "axes_at ?f6 0 0 = image_panel lib b1 1 name1 empty_axes"
    "axes_at ?f6 1 0 = image_panel lib b1 10 name1 empty_axes"
    "axes_at ?f6 0 1 = image_panel lib b2 1 name2 empty_axes"
    "axes_at ?f6 1 1 = image_panel lib b2 10 name2 empty_axes"
    using f4 by (simp_all add: axes_at_set_axes_other_column)
  ultimately show ?thesis
    using f4(8,9) by (intro exI [of _ "?f6\<lparr>shown := True\<rparr>"]) (simp add: g)
qed

lemma normed_PL_flat2':
  "normed_PL [1, 4, 16] [2, 2, 2] E_REF NORM (INDEX + 1) = Inr [320 / 7, 10 / 7, 5 / 112]"
  by (simp add: normed_PL_def py_getitem_def int_power_law_def power_law_def E_REF_def NORM_def
      INDEX_def four_powr sixteen_powr powr_minus)

lemma example_spectral_panel:
  assumes "data c1 = [[[2, 2, 2]]]" and "data c2 = [[[2, 2, 2]]]"
  shows "fst (spectral_panel example_library c1 c2 ''true'' ''reco'' coord empty_axes) = None"
    and "map (\<lambda>l. map snd (xydata l))
           (get_lines (snd (spectral_panel example_library c1 c2 ''true'' ''reco'' coord empty_axes)))
         = [[2, 2, 2], [2, 2, 2], [20, 5 / 2, 5 / 16], [320 / 7, 10 / 7, 5 / 112]]"
    and "title (snd (spectral_panel example_library c1 c2 ''true'' ''reco'' coord empty_axes))
         = ''det bin: 3x3''"
    and "legend (snd (spectral_panel example_library c1 c2 ''true'' ''reco'' coord empty_axes))"
  using assms
  by (simp_all add: spectral_panel_def plot_spectrum_def overlay_def py_getitem_def
      normed_PL_flat2 normed_PL_flat2' example_titles plot_def Let_def empty_axes_def)

lemma example_run:
  "raised (plot_bg_cube_model_comparison example_library ''true.fits.gz'' ''true''
      ''reco.fits.gz'' ''reco'') = None
   \<and> printed (plot_bg_cube_model_comparison example_library ''true.fits.gz'' ''true''
      ''reco.fits.gz'' ''reco'') = [(''filename1'', ''true.fits.gz''), (''filename2'', ''reco.fits.gz'')]
   \<and> (\<exists>f. fig (plot_bg_cube_model_comparison example_library ''true.fits.gz'' ''true''
              ''reco.fits.gz'' ''reco'') = Finite f
          \<and> shown f \<and> suptitle f = group_info \<and> size_inches f = Some (30, 15)
          \<and> title (axes_at f 0 0) = ''true: Energy bin''
          \<and> title (axes_at f 1 0) = ''true: Energy bin''
          \<and> title (axes_at f 0 1) = ''reco: Energy bin''
          \<and> title (axes_at f 1 1) = ''reco: Energy bin''
          \<and> title (axes_at f 0 2) = ''det bin: 3x3''
          \<and> title (axes_at f 1 2) = ''det bin: 3x3''
          \<and> map (\<lambda>l. map snd (xydata l)) (get_lines (axes_at f 0 2))
               = [[2, 2, 2], [2, 2, 2], [20, 5 / 2, 5 / 16], [320 / 7, 10 / 7, 5 / 112]]
          \<and> map (\<lambda>l. map snd (xydata l)) (get_lines (axes_at f 1 2))
               = [[2, 2, 2], [2, 2, 2], [20, 5 / 2, 5 / 16], [320 / 7, 10 / 7, 5 / 112]]
          \<and> legend (axes_at f 0 2) \<and> legend (axes_at f 1 2)
          \<and> map snd (images (axes_at f 0 0)) = [1] \<and> map snd (images (axes_at f 1 0)) = [10]
          \<and> map snd (images (axes_at f 0 1)) = [1] \<and> map snd (images (axes_at f 1 1)) = [10])"
proof -
  obtain e1 e2 where ne: "normalization_step flat_cube1 flat_cube2 = Inr (True, e1, e2)"
    and le: "data e1 = [[[2, 2, 2]]]" "data e2 = [[[2, 2, 2]]]"
    using example_steps(4) by blast
  note r = example_reads(1,2) ne
  note sp = example_spectral_panel [OF le]
  have t: "spec_title (spectrum_at example_library e1 c) = spec_title (spectrum_at example_library e2 c)"
    "points (spectrum_at example_library e1 c) \<noteq> []" for c
    by (simp_all add: example_titles le)
  have a: "raised (plot_bg_cube_model_comparison example_library ''true.fits.gz'' ''true''
      ''reco.fits.gz'' ''reco'') = None"
    by (simp add: run_raised [OF r] t)
  obtain f where f: "fig (plot_bg_cube_model_comparison example_library ''true.fits.gz''
        ''true'' ''reco.fits.gz'' ''reco'') =
          figure_of (True
            \<and> fst (spectral_panel example_library e1 e2 ''true'' ''reco'' (0, 0) empty_axes) = None
            \<and> fst (spectral_panel example_library e1 e2 ''true'' ''reco'' (2, 2) empty_axes) = None) f"
      "shown f" "suptitle f = group_info" "size_inches f = Some (30, 15)"
      "axes_at f 0 0 = image_panel example_library e1 1 ''true'' empty_axes"
      "axes_at f 1 0 = image_panel example_library e1 10 ''true'' empty_axes"
      "axes_at f 0 1 = image_panel example_library e2 1 ''reco'' empty_axes"
      "axes_at f 1 1 = image_panel example_library e2 10 ''reco'' empty_axes"
      "axes_at f 0 2 = snd (spectral_panel example_library e1 e2 ''true'' ''reco'' (0, 0) empty_axes)"
      "axes_at f 1 2 = snd (spectral_panel example_library e1 e2 ''true'' ''reco'' (2, 2) empty_axes)"
    using run_completes [OF r t(1) t(2) t(1) t(2), of "''true''" "''reco''"] by blast
  have i: "title (image_panel example_library c e n empty_axes) = n @ '': Energy bin''"
    "map snd (images (image_panel example_library c e n empty_axes)) = [e]" for c e n
    by (simp_all add: image_panel_def plot_image_def example_library_def empty_axes_def Let_def)
  have "fig (plot_bg_cube_model_comparison example_library ''true.fits.gz''
        ''true'' ''reco.fits.gz'' ''reco'') = Finite f"
    unfolding f(1) by (simp add: sp figure_of_def)
  with f(2-) show ?thesis
    by (simp add: a run_printed sp i)
qed

lemma zero_integral_run:
  "plot_bg_cube_model_comparison zero_library ''zero.fits.gz'' ''true'' ''reco.fits.gz'' ''reco''
     = \<lparr>raised = None,
        printed = [(''filename1'', ''zero.fits.gz''), (''filename2'', ''reco.fits.gz'')],
        fig = NonFinite True\<rparr>"
proof -
  obtain z1 z2 where nz: "normalization_step flat_zero_cube flat_cube2 = Inr (False, z1, z2)"
    and lz: "data z1 = [[[0, 0, 0]]]" "data z2 = [[[2, 2, 2]]]"
    using example_steps(3) by blast
  note r = example_reads(6,7) nz
  have t: "spec_title (spectrum_at zero_library z1 c) = spec_title (spectrum_at zero_library z2 c)"
    "points (spectrum_at zero_library z1 c) \<noteq> []" for c
    by (simp_all add: example_titles lz)
  have a: "raised (plot_bg_cube_model_comparison zero_library ''zero.fits.gz'' ''true''
      ''reco.fits.gz'' ''reco'') = None"
    by (simp add: run_raised [OF r] t)
  obtain f where f: "fig (plot_bg_cube_model_comparison zero_library ''zero.fits.gz''
        ''true'' ''reco.fits.gz'' ''reco'') =
          figure_of (False
            \<and> fst (spectral_panel zero_library z1 z2 ''true'' ''reco'' (0, 0) empty_axes) = None
            \<and> fst (spectral_panel zero_library z1 z2 ''true'' ''reco'' (2, 2) empty_axes) = None) f"
      "shown f"
    using run_completes [OF r t(1) t(2) t(1) t(2), of "''true''" "''reco''"] by blast
  have "fig (plot_bg_cube_model_comparison zero_library ''zero.fits.gz''
        ''true'' ''reco.fits.gz'' ''reco'') = NonFinite True"
    unfolding f(1) using f(2) by (simp add: figure_of_def)
  with a run_printed [of zero_library "''zero.fits.gz''" "''true''" "''reco.fits.gz''" "''reco''"]
  show ?thesis
    by (cases "plot_bg_cube_model_comparison zero_library ''zero.fits.gz'' ''true''
        ''reco.fits.gz'' ''reco''") simp
qed

end
